theory Spec2Isabelle
  imports Complex_Main
begin

section \<open>Data model\<close>

text \<open>
  The relational store is a record of tables; a table is the list of its rows in
  insertion order. The columns are those of the migrations (\<open>CREATE TABLE "Fee"\<close>,
  \<open>"Commission"\<close>, \<open>"Document"\<close>, \<open>"DocumentVersion"\<close>, \<open>"Template"\<close>, \<open>"User"\<close>).
  The two timestamp columns \<open>createdAt\<close> and \<open>updatedAt\<close> are filled in by the store
  and never written by the services; they are not part of the model.

  A TypeScript \<open>number\<close> that holds a monetary amount is a value of a type \<open>'n\<close> with
  multiplication, division and numerals; nothing else is assumed of it, so every
  statement about amounts holds for the arithmetic of IEEE doubles as well as for
  exact arithmetic. Integer columns (\<open>version\<close>, \<open>size\<close>) are \<open>int\<close>. A \<open>Date\<close> is the
  number of milliseconds it stands for. A \<open>Buffer\<close> is its list of bytes.
\<close>

type_synonym date = int
type_synonym buffer = "nat list"

record 'n Fee =
  fee_id :: string
  fee_caseId :: string
  fee_amount :: 'n
  fee_description :: string
  fee_type :: string
  fee_status :: string
  fee_dueDate :: date
  fee_paidDate :: "date option"
  fee_tenantId :: string
  fee_createdBy :: string

record 'n Commission =
  com_id :: string
  com_feeId :: string
  com_userId :: string
  com_amount :: 'n
  com_percentage :: 'n
  com_status :: string
  com_paidDate :: "date option"
  com_tenantId :: string

record Template =
  tpl_id :: string
  tpl_name :: string
  tpl_description :: "string option"
  tpl_content :: string
  tpl_category :: string
  tpl_variables :: "string option"
  tpl_tenantId :: string
  tpl_createdBy :: string

record Document =
  doc_id :: string
  doc_name :: string
  doc_type :: string
  doc_mimeType :: string
  doc_size :: int
  doc_url :: string
  doc_ocrText :: "string option"
  doc_metadata :: "string option"
  doc_version :: int
  doc_caseId :: "string option"
  doc_tenantId :: string
  doc_createdBy :: string

record DocumentVersion =
  dv_id :: string
  dv_documentId :: string
  dv_version :: int
  dv_url :: string
  dv_ocrText :: "string option"
  dv_metadata :: "string option"
  dv_createdBy :: string

text \<open>
  A stored password is the output of \<open>bcrypt.hash\<close>, kept symbolically as the cost,
  the salt and the password it was computed from; any other text in the column is
  \<open>Raw\<close>.
\<close>

datatype hashed = Bcrypt nat string string | Raw string

record User =
  usr_id :: string
  usr_email :: string
  usr_password :: hashed
  usr_firstName :: string
  usr_lastName :: string
  usr_role :: string
  usr_tenantId :: string

text \<open>
  Of the tables \<open>Tenant\<close> and \<open>Case\<close> only the primary keys matter here (they are the
  targets of foreign keys), so each is the list of its ids.
\<close>

record 'n db =
  tenants :: "string list"
  cases :: "string list"
  users :: "User list"
  fees :: "'n Fee list"
  commissions :: "'n Commission list"
  templates :: "Template list"
  documents :: "Document list"
  documentVersions :: "DocumentVersion list"

text \<open>
  Everything a service call can throw: the plain \<open>Error\<close> of the services with its
  message, the \<open>AppError\<close> of the user service with message and status code, the
  rejections of the store (no row for an update or delete, a duplicate unique key, a
  broken foreign key) and a rejected upload to the object store.
\<close>

datatype error =
    Error string
  | AppError string nat
  | RecordNotFound
  | UniqueConstraint
  | ForeignKeyConstraint
  | UploadFailed

section \<open>The store's operations\<close>

text \<open>
  \<open>findFirst\<close> and \<open>findUnique\<close> return the first row that satisfies the \<open>where\<close>
  clause, or nothing. \<open>update\<close> and \<open>delete\<close> reject the call when no row satisfies
  it; \<open>create\<close> rejects a row whose unique key is already taken. Each one returns the
  new table together with the row it wrote or removed.
\<close>

definition findFirst :: "('r \<Rightarrow> bool) \<Rightarrow> 'r list \<Rightarrow> 'r option" where
  "findFirst wh rows = find wh rows"

definition findUnique :: "('r \<Rightarrow> bool) \<Rightarrow> 'r list \<Rightarrow> 'r option" where
  "findUnique wh rows = find wh rows"

definition findMany :: "('r \<Rightarrow> bool) \<Rightarrow> 'r list \<Rightarrow> 'r list" where
  "findMany wh rows = filter wh rows"

definition create_row :: "('r \<Rightarrow> 'k) \<Rightarrow> 'r \<Rightarrow> 'r list \<Rightarrow> error + ('r list \<times> 'r)" where
  "create_row key r rows =
     (if key r \<in> set (map key rows) then Inl UniqueConstraint else Inr (rows @ [r], r))"

definition update_row :: "('r \<Rightarrow> bool) \<Rightarrow> ('r \<Rightarrow> 'r) \<Rightarrow> 'r list \<Rightarrow> error + ('r list \<times> 'r)" where
  "update_row wh f rows =
     (case find wh rows of
        None \<Rightarrow> Inl RecordNotFound
      | Some r \<Rightarrow> Inr (map (\<lambda>x. if wh x then f x else x) rows, f r))"

definition delete_row :: "('r \<Rightarrow> bool) \<Rightarrow> 'r list \<Rightarrow> error + ('r list \<times> 'r)" where
  "delete_row wh rows =
     (case find wh rows of
        None \<Rightarrow> Inl RecordNotFound
      | Some r \<Rightarrow> Inr (filter (\<lambda>x. \<not> wh x) rows, r))"

text \<open>
  The columns a \<open>create\<close> call does not supply are filled in by the store: the
  generated \<open>id\<close>, and \<open>status\<close> for a fee or a commission. The schema that declares how
  is not among the sources, so both are inputs of the model.
\<close>

record assigned =
  new_id :: string
  new_status :: string

section \<open>FeeService\<close>

record 'n CreateFeeData =
  cf_caseId :: string
  cf_amount :: 'n
  cf_description :: string
  cf_type :: string
  cf_dueDate :: date
  cf_tenantId :: string
  cf_createdBy :: string

record 'n CreateCommissionData =
  cc_feeId :: string
  cc_userId :: string
  cc_percentage :: 'n
  cc_tenantId :: string

definition fee_create :: "'n db \<Rightarrow> 'n Fee \<Rightarrow> error + ('n db \<times> 'n Fee)" where
  "fee_create d row =
     (if fee_caseId row \<notin> set (cases d) \<or> fee_tenantId row \<notin> set (tenants d)
         \<or> fee_createdBy row \<notin> set (map usr_id (users d))
      then Inl ForeignKeyConstraint
      else case create_row fee_id row (fees d) of
             Inl e \<Rightarrow> Inl e
           | Inr (rows, r) \<Rightarrow> Inr (d\<lparr>fees := rows\<rparr>, r))"

definition fee_update :: "'n db \<Rightarrow> ('n Fee \<Rightarrow> bool) \<Rightarrow> ('n Fee \<Rightarrow> 'n Fee) \<Rightarrow> error + ('n db \<times> 'n Fee)" where
  "fee_update d wh f =
     (case update_row wh f (fees d) of
        Inl e \<Rightarrow> Inl e
      | Inr (rows, r) \<Rightarrow> Inr (d\<lparr>fees := rows\<rparr>, r))"

definition commission_create :: "'n db \<Rightarrow> 'n Commission \<Rightarrow> error + ('n db \<times> 'n Commission)" where
  "commission_create d row =
     (if com_feeId row \<notin> set (map fee_id (fees d)) \<or> com_tenantId row \<notin> set (tenants d)
         \<or> com_userId row \<notin> set (map usr_id (users d))
      then Inl ForeignKeyConstraint
      else case create_row com_id row (commissions d) of
             Inl e \<Rightarrow> Inl e
           | Inr (rows, r) \<Rightarrow> Inr (d\<lparr>commissions := rows\<rparr>, r))"

definition commission_update ::
  "'n db \<Rightarrow> ('n Commission \<Rightarrow> bool) \<Rightarrow> ('n Commission \<Rightarrow> 'n Commission) \<Rightarrow> error + ('n db \<times> 'n Commission)" where
  "commission_update d wh f =
     (case update_row wh f (commissions d) of
        Inl e \<Rightarrow> Inl e
      | Inr (rows, r) \<Rightarrow> Inr (d\<lparr>commissions := rows\<rparr>, r))"

definition createFee :: "'n db \<Rightarrow> assigned \<Rightarrow> 'n CreateFeeData \<Rightarrow> error + ('n db \<times> 'n Fee)" where
  "createFee d a data =
     fee_create d
       \<lparr>fee_id = new_id a, fee_caseId = cf_caseId data, fee_amount = cf_amount data,
        fee_description = cf_description data, fee_type = cf_type data,
        fee_status = new_status a, fee_dueDate = cf_dueDate data, fee_paidDate = None,
        fee_tenantId = cf_tenantId data, fee_createdBy = cf_createdBy data\<rparr>"





text \<open>
  \<open>paidDate ? { paidDate } : {}\<close>: a \<open>Date\<close> object is always truthy, so the column is
  written exactly when the argument is supplied.
\<close>

definition updateFeeStatus ::
  "'n db \<Rightarrow> string \<Rightarrow> string \<Rightarrow> string \<Rightarrow> date option \<Rightarrow> error + ('n db \<times> 'n Fee)" where
  "updateFeeStatus d i tenantId status paidDate =
     fee_update d (\<lambda>f. fee_id f = i)
       (\<lambda>f. case paidDate of
               None \<Rightarrow> f\<lparr>fee_status := status\<rparr>
             | Some p \<Rightarrow> f\<lparr>fee_status := status, fee_paidDate := Some p\<rparr>)"

definition createCommission ::
  "('n::{times,inverse,numeral}) db \<Rightarrow> assigned \<Rightarrow> 'n CreateCommissionData
     \<Rightarrow> error + ('n db \<times> 'n Commission)" where
  "createCommission d a data =
     (case findUnique (\<lambda>f. fee_id f = cc_feeId data) (fees d) of
        None \<Rightarrow> Inl (Error ''Fee not found'')
      | Some fee \<Rightarrow>
          (let amount = (fee_amount fee * cc_percentage data) / 100
           in commission_create d
                \<lparr>com_id = new_id a, com_feeId = cc_feeId data, com_userId = cc_userId data,
                 com_amount = amount, com_percentage = cc_percentage data,
                 com_status = new_status a, com_paidDate = None,
                 com_tenantId = cc_tenantId data\<rparr>))"

definition updateCommissionStatus ::
  "'n db \<Rightarrow> string \<Rightarrow> string \<Rightarrow> string \<Rightarrow> date option \<Rightarrow> error + ('n db \<times> 'n Commission)" where
  "updateCommissionStatus d i tenantId status paidDate =
     commission_update d (\<lambda>c. com_id c = i)
       (\<lambda>c. case paidDate of
               None \<Rightarrow> c\<lparr>com_status := status\<rparr>
             | Some p \<Rightarrow> c\<lparr>com_status := status, com_paidDate := Some p\<rparr>)"

section \<open>TemplateService\<close>

record CreateTemplateData =
  ct_name :: string
  ct_description :: "string option"
  ct_content :: string
  ct_category :: string
  ct_variables :: "string option"
  ct_tenantId :: string
  ct_createdBy :: string

text \<open>
  Every field of \<open>UpdateTemplateData\<close> is optional; the store leaves a column alone
  when its field is \<open>undefined\<close>.
\<close>

record UpdateTemplateData =
  ut_name :: "string option"
  ut_description :: "string option"
  ut_content :: "string option"
  ut_category :: "string option"
  ut_variables :: "string option"

definition template_create :: "'n db \<Rightarrow> Template \<Rightarrow> error + ('n db \<times> Template)" where
  "template_create d row =
     (if tpl_tenantId row \<notin> set (tenants d) \<or> tpl_createdBy row \<notin> set (map usr_id (users d))
      then Inl ForeignKeyConstraint
      else case create_row tpl_id row (templates d) of
             Inl e \<Rightarrow> Inl e
           | Inr (rows, r) \<Rightarrow> Inr (d\<lparr>templates := rows\<rparr>, r))"

definition template_update ::
  "'n db \<Rightarrow> (Template \<Rightarrow> bool) \<Rightarrow> (Template \<Rightarrow> Template) \<Rightarrow> error + ('n db \<times> Template)" where
  "template_update d wh f =
     (case update_row wh f (templates d) of
        Inl e \<Rightarrow> Inl e
      | Inr (rows, r) \<Rightarrow> Inr (d\<lparr>templates := rows\<rparr>, r))"

definition template_delete :: "'n db \<Rightarrow> (Template \<Rightarrow> bool) \<Rightarrow> error + ('n db \<times> Template)" where
  "template_delete d wh =
     (case delete_row wh (templates d) of
        Inl e \<Rightarrow> Inl e
      | Inr (rows, r) \<Rightarrow> Inr (d\<lparr>templates := rows\<rparr>, r))"

definition apply_template_data :: "UpdateTemplateData \<Rightarrow> Template \<Rightarrow> Template" where
  "apply_template_data data t =
     t\<lparr>tpl_name := (case ut_name data of None \<Rightarrow> tpl_name t | Some v \<Rightarrow> v),
       tpl_description := (case ut_description data of None \<Rightarrow> tpl_description t | Some v \<Rightarrow> Some v),
       tpl_content := (case ut_content data of None \<Rightarrow> tpl_content t | Some v \<Rightarrow> v),
       tpl_category := (case ut_category data of None \<Rightarrow> tpl_category t | Some v \<Rightarrow> v),
       tpl_variables := (case ut_variables data of None \<Rightarrow> tpl_variables t | Some v \<Rightarrow> Some v)\<rparr>"

definition createTemplate :: "'n db \<Rightarrow> string \<Rightarrow> CreateTemplateData \<Rightarrow> error + ('n db \<times> Template)" where
  "createTemplate d new data =
     template_create d
       \<lparr>tpl_id = new, tpl_name = ct_name data, tpl_description = ct_description data,
        tpl_content = ct_content data, tpl_category = ct_category data,
        tpl_variables = ct_variables data, tpl_tenantId = ct_tenantId data,
        tpl_createdBy = ct_createdBy data\<rparr>"


definition updateTemplate ::
  "'n db \<Rightarrow> string \<Rightarrow> string \<Rightarrow> UpdateTemplateData \<Rightarrow> error + ('n db \<times> Template)" where
  "updateTemplate d i tenantId data =
     template_update d (\<lambda>t. tpl_id t = i) (apply_template_data data)"

definition deleteTemplate :: "'n db \<Rightarrow> string \<Rightarrow> string \<Rightarrow> error + ('n db \<times> Template)" where
  "deleteTemplate d i tenantId = template_delete d (\<lambda>t. tpl_id t = i)"

section \<open>DocumentService\<close>

text \<open>
  What the service reads from outside the store: the CDN prefix of the environment
  (\<open>undefined\<close> prints as the text \<open>undefined\<close> inside a template string) and
  \<open>JSON.stringify\<close> on metadata values of a type \<open>'j\<close>. Per call: the value of
  \<open>uuidv4()\<close>, whether the object store accepts the upload, and the id the store
  generates for the row the call inserts. The object store is only ever written, so
  the model keeps no copy of its contents.
\<close>

record 'j doc_env =
  DO_SPACES_CDN_URL :: "string option"
  JSON_stringify :: "'j \<Rightarrow> string"

record doc_io =
  io_uuid :: string
  io_accepted :: bool
  io_rowid :: string

record CreateDocumentData =
  cd_name :: string
  cd_type :: string
  cd_mimeType :: string
  cd_size :: int
  cd_caseId :: "string option"
  cd_tenantId :: string
  cd_createdBy :: string
  cd_metadata :: "string option"

definition uploadToSpaces :: "'j doc_env \<Rightarrow> doc_io \<Rightarrow> buffer \<Rightarrow> string \<Rightarrow> string \<Rightarrow> error + string" where
  "uploadToSpaces env io file filename mimeType =
     (if io_accepted io
      then Inr ((case DO_SPACES_CDN_URL env of None \<Rightarrow> ''undefined'' | Some u \<Rightarrow> u) @ ''/'' @ filename)
      else Inl UploadFailed)"

definition extractTextFromDocument :: "buffer \<Rightarrow> string \<Rightarrow> string" where
  "extractTextFromDocument file mimeType = ''Sample extracted text from document''"

definition ocr_types :: "string list" where
  "ocr_types = [''application/pdf'', ''image/jpeg'', ''image/png'']"

definition document_create :: "'n db \<Rightarrow> Document \<Rightarrow> error + ('n db \<times> Document)" where
  "document_create d row =
     (if (case doc_caseId row of None \<Rightarrow> False | Some c \<Rightarrow> c \<notin> set (cases d))
         \<or> doc_tenantId row \<notin> set (tenants d)
         \<or> doc_createdBy row \<notin> set (map usr_id (users d))
      then Inl ForeignKeyConstraint
      else case create_row doc_id row (documents d) of
             Inl e \<Rightarrow> Inl e
           | Inr (rows, r) \<Rightarrow> Inr (d\<lparr>documents := rows\<rparr>, r))"

definition document_update ::
  "'n db \<Rightarrow> (Document \<Rightarrow> bool) \<Rightarrow> (Document \<Rightarrow> Document) \<Rightarrow> error + ('n db \<times> Document)" where
  "document_update d wh f =
     (case update_row wh f (documents d) of
        Inl e \<Rightarrow> Inl e
      | Inr (rows, r) \<Rightarrow> Inr (d\<lparr>documents := rows\<rparr>, r))"

definition documentVersion_create ::
  "'n db \<Rightarrow> DocumentVersion \<Rightarrow> error + ('n db \<times> DocumentVersion)" where
  "documentVersion_create d row =
     (if dv_documentId row \<notin> set (map doc_id (documents d))
         \<or> dv_createdBy row \<notin> set (map usr_id (users d))
      then Inl ForeignKeyConstraint
      else case create_row dv_id row (documentVersions d) of
             Inl e \<Rightarrow> Inl e
           | Inr (rows, r) \<Rightarrow> Inr (d\<lparr>documentVersions := rows\<rparr>, r))"

text \<open>
  \<open>createDocument\<close> spreads \<open>data\<close> and then sets \<open>url\<close>, \<open>ocrText\<close> and \<open>metadata\<close>, so
  the \<open>metadata\<close> of \<open>data\<close> is always replaced by the serialised argument (or by
  \<open>undefined\<close>). A column that a \<open>create\<close> leaves \<open>undefined\<close> is NULL, and \<open>version\<close>
  takes its default 1.
\<close>

definition createDocument ::
  "'j doc_env \<Rightarrow> 'n db \<Rightarrow> doc_io \<Rightarrow> buffer \<Rightarrow> CreateDocumentData \<Rightarrow> 'j option
     \<Rightarrow> error + ('n db \<times> Document)" where
  "createDocument env d io file data metadata =
     (let filename = io_uuid io @ ''-'' @ cd_name data
      in case uploadToSpaces env io file filename (cd_mimeType data) of
           Inl e \<Rightarrow> Inl e
         | Inr url \<Rightarrow>
             (let ocrText =
                    (if cd_mimeType data \<in> set ocr_types
                     then Some (extractTextFromDocument file (cd_mimeType data)) else None)
              in document_create d
                   \<lparr>doc_id = io_rowid io, doc_name = cd_name data, doc_type = cd_type data,
                    doc_mimeType = cd_mimeType data, doc_size = cd_size data, doc_url = url,
                    doc_ocrText = ocrText,
                    doc_metadata = map_option (JSON_stringify env) metadata,
                    doc_version = 1, doc_caseId = cd_caseId data,
                    doc_tenantId = cd_tenantId data, doc_createdBy = cd_createdBy data\<rparr>))"


text \<open>
  \<open>updateDocument\<close> writes twice, first the version row and then the document, with no
  transaction around the two; it therefore returns the store it leaves behind in every
  case, next to the document or the error. In the \<open>data\<close> of an \<open>update\<close> a field that
  is \<open>undefined\<close> leaves its column as it was.
\<close>

definition updateDocument ::
  "'j doc_env \<Rightarrow> 'n db \<Rightarrow> doc_io \<Rightarrow> string \<Rightarrow> string \<Rightarrow> buffer \<Rightarrow> 'j option
     \<Rightarrow> 'n db \<times> (error + Document)" where
  "updateDocument env d io i tenantId file metadata =
     (case findFirst (\<lambda>doc. doc_id doc = i \<and> doc_tenantId doc = tenantId) (documents d) of
        None \<Rightarrow> (d, Inl (Error ''Document not found''))
      | Some document \<Rightarrow>
          (let filename = io_uuid io @ ''-'' @ doc_name document
           in case uploadToSpaces env io file filename (doc_mimeType document) of
                Inl e \<Rightarrow> (d, Inl e)
              | Inr url \<Rightarrow>
                  (let ocrText =
                         (if doc_mimeType document \<in> set ocr_types
                          then Some (extractTextFromDocument file (doc_mimeType document))
                          else None);
                       meta = map_option (JSON_stringify env) metadata
                   in case documentVersion_create d
                             \<lparr>dv_id = io_rowid io, dv_documentId = i,
                              dv_version = doc_version document + 1, dv_url = url,
                              dv_ocrText = ocrText, dv_metadata = meta,
                              dv_createdBy = doc_createdBy document\<rparr> of
                        Inl e \<Rightarrow> (d, Inl e)
                      | Inr (d1, v) \<Rightarrow>
                          (case document_update d1 (\<lambda>doc. doc_id doc = i)
                                  (\<lambda>doc. doc\<lparr>doc_version := doc_version document + 1,
                                             doc_url := url,
                                             doc_ocrText :=
                                               (case ocrText of None \<Rightarrow> doc_ocrText doc
                                                | Some t \<Rightarrow> Some t),
                                             doc_metadata :=
                                               (case meta of None \<Rightarrow> doc_metadata doc
                                                | Some m \<Rightarrow> Some m)\<rparr>) of
                             Inl e \<Rightarrow> (d1, Inl e)
                           | Inr (d2, doc') \<Rightarrow> (d2, Inr doc')))))"

section \<open>Successive updates of one document\<close>

text \<open>
  The version rows of a document, in insertion order, and a run of \<open>updateDocument\<close>
  calls on the same document, each with its own upload; the run yields the final store
  when every call succeeded.
\<close>

definition versions_of :: "'n db \<Rightarrow> string \<Rightarrow> DocumentVersion list" where
  "versions_of d i = findMany (\<lambda>v. dv_documentId v = i) (documentVersions d)"

fun updateDocuments ::
  "'j doc_env \<Rightarrow> 'n db \<Rightarrow> string \<Rightarrow> string \<Rightarrow> (doc_io \<times> buffer \<times> 'j option) list \<Rightarrow> 'n db option" where
  "updateDocuments env d i tenantId [] = Some d"
| "updateDocuments env d i tenantId ((io, file, metadata) # calls) =
     (case updateDocument env d io i tenantId file metadata of
        (d', Inr doc) \<Rightarrow> updateDocuments env d' i tenantId calls
      | (d', Inl e) \<Rightarrow> None)"


section \<open>Tokens\<close>

text \<open>
  A signed token is kept symbolically: the payload, the secret it was signed with and
  the instant it expires (in seconds). Any other text in a header is \<open>Opaque\<close>. The
  payload type of the middleware declares \<open>userId\<close>, \<open>tenantId\<close> and \<open>role\<close>; a
  payload object need not have the key \<open>role\<close>, so that field is optional here.
\<close>

record claims =
  tok_userId :: string
  tok_tenantId :: string
  tok_role :: "string option"

datatype token = Jwt claims string nat | Opaque string

definition jwt_sign :: "claims \<Rightarrow> string \<Rightarrow> nat \<Rightarrow> nat \<Rightarrow> token" where
  "jwt_sign payload secret expiresIn now = Jwt payload secret (now + expiresIn)"

definition jwt_verify :: "token \<Rightarrow> string \<Rightarrow> nat \<Rightarrow> claims option" where
  "jwt_verify t secret now =
     (case t of
        Jwt payload s expiry \<Rightarrow> if s = secret \<and> now < expiry then Some payload else None
      | Opaque _ \<Rightarrow> None)"

text \<open>
  The environment of the user service and of the middleware: \<open>JWT_SECRET\<close>, and the
  time span \<open>JWT_EXPIRES_IN\<close> stands for, in seconds. \<open>x || y\<close> takes \<open>y\<close> when \<open>x\<close> is
  unset or the empty string.
\<close>

record auth_env =
  JWT_SECRET :: "string option"
  JWT_EXPIRES_IN :: "nat option"

definition jwt_secret :: "auth_env \<Rightarrow> string" where
  "jwt_secret env =
     (case JWT_SECRET env of
        None \<Rightarrow> ''your-development-secret-key''
      | Some s \<Rightarrow> if s = [] then ''your-development-secret-key'' else s)"

definition jwt_expiresIn :: "auth_env \<Rightarrow> nat" where
  "jwt_expiresIn env = (case JWT_EXPIRES_IN env of None \<Rightarrow> 24 * 3600 | Some t \<Rightarrow> t)"

section \<open>UserService\<close>

text \<open>
  A JavaScript object is the list of its keys with their values. The object the store
  returns for a user row has one key per column.
\<close>

datatype jsval =
    JStr string
  | JHashed hashed
  | JToken token
  | JObj "(string \<times> jsval) list"
  | JArr "jsval list"
  | JNone

type_synonym obj = "(string \<times> jsval) list"

definition user_object :: "User \<Rightarrow> obj" where
  "user_object u =
     [(''id'', JStr (usr_id u)), (''email'', JStr (usr_email u)),
      (''password'', JHashed (usr_password u)), (''firstName'', JStr (usr_firstName u)),
      (''lastName'', JStr (usr_lastName u)), (''role'', JStr (usr_role u)),
      (''tenantId'', JStr (usr_tenantId u))]"

record CreateUserData =
  cu_email :: string
  cu_password :: string
  cu_firstName :: string
  cu_lastName :: string
  cu_tenantId :: string

record LoginData =
  li_email :: string
  li_password :: string

text \<open>Per call of \<open>createUser\<close>: the id the store generates and the salt of the hash.\<close>

record user_io =
  uio_id :: string
  uio_salt :: string

record auth_result =
  res_user :: obj
  res_token :: token

definition bcrypt_hash :: "string \<Rightarrow> nat \<Rightarrow> string \<Rightarrow> hashed" where
  "bcrypt_hash password rounds salt = Bcrypt rounds salt password"

definition bcrypt_compare :: "string \<Rightarrow> hashed \<Rightarrow> bool" where
  "bcrypt_compare password h =
     (case h of Bcrypt _ _ p \<Rightarrow> p = password | Raw _ \<Rightarrow> False)"

text \<open>\<open>User.email\<close> carries a unique index next to the primary key.\<close>

definition user_create :: "'n db \<Rightarrow> User \<Rightarrow> error + ('n db \<times> User)" where
  "user_create d row =
     (if usr_tenantId row \<notin> set (tenants d) then Inl ForeignKeyConstraint
      else if usr_email row \<in> set (map usr_email (users d)) then Inl UniqueConstraint
      else case create_row usr_id row (users d) of
             Inl e \<Rightarrow> Inl e
           | Inr (rows, r) \<Rightarrow> Inr (d\<lparr>users := rows\<rparr>, r))"

definition user_update ::
  "'n db \<Rightarrow> (User \<Rightarrow> bool) \<Rightarrow> (User \<Rightarrow> User) \<Rightarrow> error + ('n db \<times> User)" where
  "user_update d wh f =
     (case update_row wh f (users d) of
        Inl e \<Rightarrow> Inl e
      | Inr (rows, r) \<Rightarrow> Inr (d\<lparr>users := rows\<rparr>, r))"

text \<open>
  Every foreign key to \<open>User\<close> is \<open>ON DELETE RESTRICT\<close>: a user that a fee, a commission,
  a template, a document or a document version refers to cannot be deleted.
\<close>

definition user_referenced :: "'n db \<Rightarrow> string \<Rightarrow> bool" where
  "user_referenced d i \<longleftrightarrow>
     i \<in> set (map fee_createdBy (fees d)) \<or> i \<in> set (map com_userId (commissions d))
     \<or> i \<in> set (map tpl_createdBy (templates d)) \<or> i \<in> set (map doc_createdBy (documents d))
     \<or> i \<in> set (map dv_createdBy (documentVersions d))"

definition user_delete :: "'n db \<Rightarrow> (User \<Rightarrow> bool) \<Rightarrow> error + ('n db \<times> User)" where
  "user_delete d wh =
     (case delete_row wh (users d) of
        Inl e \<Rightarrow> Inl e
      | Inr (rows, r) \<Rightarrow>
          if user_referenced d (usr_id r) then Inl ForeignKeyConstraint
          else Inr (d\<lparr>users := rows\<rparr>, r))"

definition generateToken :: "auth_env \<Rightarrow> nat \<Rightarrow> string \<Rightarrow> string \<Rightarrow> token" where
  "generateToken env now userId tenantId =
     jwt_sign \<lparr>tok_userId = userId, tok_tenantId = tenantId, tok_role = None\<rparr>
       (jwt_secret env) (jwt_expiresIn env) now"

definition sanitizeUser :: "obj \<Rightarrow> obj" where
  "sanitizeUser user = filter (\<lambda>kv. fst kv \<noteq> ''password'') user"

definition createUser ::
  "auth_env \<Rightarrow> 'n db \<Rightarrow> user_io \<Rightarrow> nat \<Rightarrow> CreateUserData \<Rightarrow> error + ('n db \<times> auth_result)" where
  "createUser env d io now data =
     (case findUnique (\<lambda>u. usr_email u = cu_email data) (users d) of
        Some existingUser \<Rightarrow> Inl (AppError ''User already exists'' 400)
      | None \<Rightarrow>
          (let hashedPassword = bcrypt_hash (cu_password data) 10 (uio_salt io)
           in case user_create d
                     \<lparr>usr_id = uio_id io, usr_email = cu_email data,
                      usr_password = hashedPassword, usr_firstName = cu_firstName data,
                      usr_lastName = cu_lastName data, usr_role = ''USER'',
                      usr_tenantId = cu_tenantId data\<rparr> of
                Inl e \<Rightarrow> Inl e
              | Inr (d', user) \<Rightarrow>
                  Inr (d', \<lparr>res_user = sanitizeUser (user_object user),
                            res_token = generateToken env now (usr_id user) (usr_tenantId user)\<rparr>)))"

definition login :: "auth_env \<Rightarrow> 'n db \<Rightarrow> nat \<Rightarrow> LoginData \<Rightarrow> error + auth_result" where
  "login env d now data =
     (case findUnique (\<lambda>u. usr_email u = li_email data) (users d) of
        None \<Rightarrow> Inl (AppError ''Invalid credentials'' 401)
      | Some user \<Rightarrow>
          if \<not> bcrypt_compare (li_password data) (usr_password user)
          then Inl (AppError ''Invalid credentials'' 401)
          else Inr \<lparr>res_user = sanitizeUser (user_object user),
                    res_token = generateToken env now (usr_id user) (usr_tenantId user)\<rparr>)"

definition getUserProfile :: "'n db \<Rightarrow> string \<Rightarrow> error + obj" where
  "getUserProfile d userId =
     (case findUnique (\<lambda>u. usr_id u = userId) (users d) of
        None \<Rightarrow> Inl (AppError ''User not found'' 404)
      | Some user \<Rightarrow> Inr (sanitizeUser (user_object user)))"

definition listUsers :: "'n db \<Rightarrow> string \<Rightarrow> obj list" where
  "listUsers d tenantId =
     map (\<lambda>u. [(''id'', JStr (usr_id u)), (''email'', JStr (usr_email u)),
               (''firstName'', JStr (usr_firstName u)), (''lastName'', JStr (usr_lastName u)),
               (''role'', JStr (usr_role u))])
       (findMany (\<lambda>u. usr_tenantId u = tenantId) (users d))"

definition changeUserRole :: "'n db \<Rightarrow> string \<Rightarrow> string \<Rightarrow> error + ('n db \<times> obj)" where
  "changeUserRole d userId role =
     (case user_update d (\<lambda>u. usr_id u = userId) (\<lambda>u. u\<lparr>usr_role := role\<rparr>) of
        Inl e \<Rightarrow> Inl e
      | Inr (d', user) \<Rightarrow> Inr (d', sanitizeUser (user_object user)))"

definition deleteUser :: "'n db \<Rightarrow> string \<Rightarrow> error + 'n db" where
  "deleteUser d userId =
     (case user_delete d (\<lambda>u. usr_id u = userId) of
        Inl e \<Rightarrow> Inl e
      | Inr (d', user) \<Rightarrow> Inr d')"

section \<open>Middleware\<close>

text \<open>
  Of a request the handlers read the \<open>Authorization\<close> header, the identity \<open>req.user\<close>
  that \<open>authenticateToken\<close> attaches, the path parameter \<open>userId\<close> and the body. The
  header is kept as the list of its segments between single spaces, which is what
  \<open>authHeader.split(' ')\<close> computes. A handler answers with a status and a JSON body,
  hands the request on (\<open>next()\<close>), or hands an error to the error middleware
  (\<open>next(err)\<close>). A failed verification and a failed lookup inside the inner \<open>try\<close>
  of \<open>authenticateToken\<close> both answer 401; nothing else in the two middlewares can
  throw, so their outer \<open>catch\<close> with its 500 has no branch here.
\<close>

record 'b request =
  headers_authorization :: "token list option"
  req_user :: "claims option"
  params_userId :: string
  req_body :: 'b

datatype 'b outcome =
    Respond nat jsval
  | Next "'b request"
  | Forward error

definition error_body :: "string \<Rightarrow> jsval" where
  "error_body msg = JObj [(''error'', JStr msg)]"

text \<open>\<open>authHeader && authHeader.split(' ')[1]\<close>: the second segment, when there is one.\<close>

definition header_token :: "'b request \<Rightarrow> token option" where
  "header_token req =
     (case headers_authorization req of
        None \<Rightarrow> None
      | Some segments \<Rightarrow> if 1 < length segments then Some (segments ! 1) else None)"

definition authenticateToken :: "auth_env \<Rightarrow> 'n db \<Rightarrow> nat \<Rightarrow> 'b request \<Rightarrow> 'b outcome" where
  "authenticateToken env d now req =
     (case header_token req of
        None \<Rightarrow> Respond 401 (error_body ''No token provided'')
      | Some t \<Rightarrow>
          if t = Opaque [] then Respond 401 (error_body ''No token provided'')
          else (case jwt_verify t (jwt_secret env) now of
                  None \<Rightarrow> Respond 401 (error_body ''Invalid token'')
                | Some decoded \<Rightarrow>
                    (case findFirst (\<lambda>u. usr_id u = tok_userId decoded
                                         \<and> usr_tenantId u = tok_tenantId decoded) (users d) of
                       None \<Rightarrow> Respond 401 (error_body ''Invalid token'')
                     | Some user \<Rightarrow> Next (req\<lparr>req_user := Some decoded\<rparr>))))"

definition requireRole :: "string list \<Rightarrow> 'b request \<Rightarrow> 'b outcome" where
  "requireRole roles req =
     (case req_user req of
        None \<Rightarrow> Respond 401 (error_body ''User not authenticated'')
      | Some u \<Rightarrow>
          if \<not> (case tok_role u of None \<Rightarrow> False | Some r \<Rightarrow> r \<in> set roles)
          then Respond 403 (error_body ''Insufficient permissions'')
          else Next req)"

section \<open>userController and the user routes\<close>

record ChangeRoleBody =
  cr_userId :: string
  cr_role :: string

definition register ::
  "auth_env \<Rightarrow> 'n db \<Rightarrow> user_io \<Rightarrow> nat \<Rightarrow> CreateUserData request
     \<Rightarrow> 'n db \<times> CreateUserData outcome" where
  "register env d io now req =
     (case createUser env d io now (req_body req) of
        Inr (d', user) \<Rightarrow>
          (d', Respond 201
                 (JObj [(''user'', JObj [(''user'', JObj (res_user user)),
                                         (''token'', JToken (res_token user))])]))
      | Inl err \<Rightarrow> (d, Forward err))"

definition login_ctl :: "auth_env \<Rightarrow> 'n db \<Rightarrow> nat \<Rightarrow> LoginData request \<Rightarrow> LoginData outcome" where
  "login_ctl env d now req =
     (case login env d now (req_body req) of
        Inr result \<Rightarrow>
          Respond 200 (JObj [(''user'', JObj (res_user result)), (''token'', JToken (res_token result))])
      | Inl err \<Rightarrow> Forward err)"

text \<open>\<open>req.user?.userId\<close> is missing when there is no identity; the empty string is falsy.\<close>

definition getProfile :: "'n db \<Rightarrow> 'b request \<Rightarrow> 'b outcome" where
  "getProfile d req =
     (case (case req_user req of
              None \<Rightarrow> None
            | Some u \<Rightarrow> if tok_userId u = [] then None else Some (tok_userId u)) of
        None \<Rightarrow> Forward (AppError ''User not authenticated'' 401)
      | Some userId \<Rightarrow>
          (case getUserProfile d userId of
             Inr user \<Rightarrow> Respond 200 (JObj [(''user'', JObj user)])
           | Inl err \<Rightarrow> Forward err))"

definition listUsers_ctl :: "'n db \<Rightarrow> 'b request \<Rightarrow> 'b outcome" where
  "listUsers_ctl d req =
     (case (case req_user req of
              None \<Rightarrow> None
            | Some u \<Rightarrow> if tok_tenantId u = [] then None else Some (tok_tenantId u)) of
        None \<Rightarrow> Forward (AppError ''Tenant ID is required'' 400)
      | Some tenantId \<Rightarrow>
          Respond 200 (JObj [(''users'', JArr (map JObj (listUsers d tenantId)))]))"

definition changeUserRole_ctl ::
  "'n db \<Rightarrow> ChangeRoleBody request \<Rightarrow> 'n db \<times> ChangeRoleBody outcome" where
  "changeUserRole_ctl d req =
     (case changeUserRole d (cr_userId (req_body req)) (cr_role (req_body req)) of
        Inr (d', user) \<Rightarrow> (d', Respond 200 (JObj [(''user'', JObj user)]))
      | Inl err \<Rightarrow> (d, Forward err))"

definition deleteUser_ctl :: "'n db \<Rightarrow> 'b request \<Rightarrow> 'n db \<times> 'b outcome" where
  "deleteUser_ctl d req =
     (case deleteUser d (params_userId req) of
        Inr d' \<Rightarrow> (d', Respond 204 JNone)
      | Inl err \<Rightarrow> (d, Forward err))"

text \<open>
  A route runs its handlers in order; a handler that does not call \<open>next()\<close> ends the
  request. The routes of \<open>userRoutes.ts\<close>, mounted under \<open>/api/users\<close>:
  \<open>GET /profile\<close>, \<open>GET /\<close>, \<open>PATCH /role\<close> and \<open>DELETE /:userId\<close>.
\<close>

definition route_get_profile :: "auth_env \<Rightarrow> 'n db \<Rightarrow> nat \<Rightarrow> 'b request \<Rightarrow> 'b outcome" where
  "route_get_profile env d now req =
     (case authenticateToken env d now req of
        Next req1 \<Rightarrow> getProfile d req1
      | out \<Rightarrow> out)"

definition route_list_users :: "auth_env \<Rightarrow> 'n db \<Rightarrow> nat \<Rightarrow> 'b request \<Rightarrow> 'b outcome" where
  "route_list_users env d now req =
     (case authenticateToken env d now req of
        Next req1 \<Rightarrow>
          (case requireRole [''ADMIN''] req1 of
             Next req2 \<Rightarrow> listUsers_ctl d req2
           | out \<Rightarrow> out)
      | out \<Rightarrow> out)"

definition route_patch_role ::
  "auth_env \<Rightarrow> 'n db \<Rightarrow> nat \<Rightarrow> ChangeRoleBody request \<Rightarrow> 'n db \<times> ChangeRoleBody outcome" where
  "route_patch_role env d now req =
     (case authenticateToken env d now req of
        Next req1 \<Rightarrow>
          (case requireRole [''ADMIN''] req1 of
             Next req2 \<Rightarrow> changeUserRole_ctl d req2
           | out \<Rightarrow> (d, out))
      | out \<Rightarrow> (d, out))"

definition route_delete_user ::
  "auth_env \<Rightarrow> 'n db \<Rightarrow> nat \<Rightarrow> 'b request \<Rightarrow> 'n db \<times> 'b outcome" where
  "route_delete_user env d now req =
     (case authenticateToken env d now req of
        Next req1 \<Rightarrow>
          (case requireRole [''ADMIN''] req1 of
             Next req2 \<Rightarrow> deleteUser_ctl d req2
           | out \<Rightarrow> (d, out))
      | out \<Rightarrow> (d, out))"

section \<open>The error middleware\<close>

text \<open>
  Modelled from the spec: the error middleware \<open>utils/errorHandler\<close>, to which the
  controllers hand their errors with \<open>next(err)\<close>, is not among the sources. The spec
  has a failure with a status of its own answered with that 4xx status, and anything
  else converted to a 500. Only the status of the answer is modelled.
\<close>

definition errorHandler_status :: "error \<Rightarrow> nat" where
  "errorHandler_status err = (case err of AppError msg code \<Rightarrow> code | _ \<Rightarrow> 500)"

definition response_status :: "'b outcome \<Rightarrow> nat option" where
  "response_status out =
     (case out of
        Respond st body \<Rightarrow> Some st
      | Forward err \<Rightarrow> Some (errorHandler_status err)
      | Next req \<Rightarrow> None)"


section \<open>Primary keys\<close>

text \<open>Every table has \<open>id\<close> as its primary key: no two rows of a table share it.\<close>

definition primary_keys :: "'n db \<Rightarrow> bool" where
  "primary_keys d \<longleftrightarrow>
     distinct (map usr_id (users d)) \<and> distinct (map fee_id (fees d))
     \<and> distinct (map com_id (commissions d)) \<and> distinct (map tpl_id (templates d))
     \<and> distinct (map doc_id (documents d)) \<and> distinct (map dv_id (documentVersions d))"

section \<open>A store with two tenants\<close>

text \<open>
  Tenant \<open>T1\<close> owns a user, a fee, a template and a document; tenant \<open>T2\<close> owns a user
  and nothing else. Amounts are real numbers here.
\<close>

definition alice :: User where
  "alice = \<lparr>usr_id = ''u1'', usr_email = ''alice@t1.example'',
            usr_password = Bcrypt 10 ''salt1'' ''wonderland'', usr_firstName = ''Alice'',
            usr_lastName = ''Liddell'', usr_role = ''ADMIN'', usr_tenantId = ''T1''\<rparr>"

definition bob :: User where
  "bob = \<lparr>usr_id = ''u2'', usr_email = ''bob@t2.example'',
          usr_password = Bcrypt 10 ''salt2'' ''builder'', usr_firstName = ''Bob'',
          usr_lastName = ''Builder'', usr_role = ''USER'', usr_tenantId = ''T2''\<rparr>"

definition fee1 :: "real Fee" where
  "fee1 = \<lparr>fee_id = ''fee1'', fee_caseId = ''case1'', fee_amount = 1000,
           fee_description = ''Contingency fee'', fee_type = ''PERCENTAGE'',
           fee_status = ''PENDING'', fee_dueDate = 1750000000000, fee_paidDate = None,
           fee_tenantId = ''T1'', fee_createdBy = ''u1''\<rparr>"

definition tpl1 :: Template where
  "tpl1 = \<lparr>tpl_id = ''tpl1'', tpl_name = ''Demand letter'', tpl_description = None,
           tpl_content = ''Dear {{insurer}}'', tpl_category = ''LETTER'',
           tpl_variables = Some ''[insurer]'', tpl_tenantId = ''T1'', tpl_createdBy = ''u1''\<rparr>"

definition doc1 :: Document where
  "doc1 = \<lparr>doc_id = ''doc1'', doc_name = ''policy.txt'', doc_type = ''POLICY'',
           doc_mimeType = ''text/plain'', doc_size = 42,
           doc_url = ''https://cdn.example/k0-policy.txt'', doc_ocrText = None,
           doc_metadata = Some ''{v:0}'', doc_version = 1, doc_caseId = Some ''case1'',
           doc_tenantId = ''T1'', doc_createdBy = ''u1''\<rparr>"

definition store0 :: "real db" where
  "store0 = \<lparr>tenants = [''T1'', ''T2''], cases = [''case1''], users = [alice, bob],
             fees = [fee1], commissions = [], templates = [tpl1], documents = [doc1],
             documentVersions = []\<rparr>"









section \<open>Example uploads\<close>

definition env0 :: "string doc_env" where
  "env0 = \<lparr>DO_SPACES_CDN_URL = Some ''https://cdn.example'', JSON_stringify = (\<lambda>s. s)\<rparr>"

definition upload1 :: doc_io where
  "upload1 = \<lparr>io_uuid = ''k1'', io_accepted = True, io_rowid = ''v1''\<rparr>"

definition upload2 :: doc_io where
  "upload2 = \<lparr>io_uuid = ''k2'', io_accepted = True, io_rowid = ''v2''\<rparr>"


definition ver1 :: DocumentVersion where
  "ver1 = \<lparr>dv_id = ''v1'', dv_documentId = ''doc1'', dv_version = 2,
           dv_url = ''https://cdn.example/k1-policy.txt'', dv_ocrText = None,
           dv_metadata = None, dv_createdBy = ''u1''\<rparr>"

definition ver2 :: DocumentVersion where
  "ver2 = \<lparr>dv_id = ''v2'', dv_documentId = ''doc1'', dv_version = 3,
           dv_url = ''https://cdn.example/k2-policy.txt'', dv_ocrText = None,
           dv_metadata = Some ''{v:2}'', dv_createdBy = ''u1''\<rparr>"

definition doc1_v2 :: Document where
  "doc1_v2 = doc1\<lparr>doc_version := 2, doc_url := ''https://cdn.example/k1-policy.txt''\<rparr>"

definition doc1_v3 :: Document where
  "doc1_v3 = doc1\<lparr>doc_version := 3, doc_url := ''https://cdn.example/k2-policy.txt'',
                  doc_metadata := Some ''{v:2}''\<rparr>"

definition store_v2 :: "real db" where
  "store_v2 = store0\<lparr>documents := [doc1_v2], documentVersions := [ver1]\<rparr>"

definition store_v3 :: "real db" where
  "store_v3 = store0\<lparr>documents := [doc1_v3], documentVersions := [ver1, ver2]\<rparr>"

definition scan_data :: CreateDocumentData where
  "scan_data = \<lparr>cd_name = ''scan.pdf'', cd_type = ''ESTIMATE'', cd_mimeType = ''application/pdf'',
                cd_size = 7, cd_caseId = None, cd_tenantId = ''T1'', cd_createdBy = ''u1'',
                cd_metadata = None\<rparr>"

definition upload3 :: doc_io where
  "upload3 = \<lparr>io_uuid = ''k3'', io_accepted = True, io_rowid = ''doc2''\<rparr>"

definition doc2 :: Document where
  "doc2 = \<lparr>doc_id = ''doc2'', doc_name = ''scan.pdf'', doc_type = ''ESTIMATE'',
           doc_mimeType = ''application/pdf'', doc_size = 7,
           doc_url = ''https://cdn.example/k3-scan.pdf'',
           doc_ocrText = Some ''Sample extracted text from document'',
           doc_metadata = None, doc_version = 1, doc_caseId = None,
           doc_tenantId = ''T1'', doc_createdBy = ''u1''\<rparr>"

section \<open>Example requests\<close>

text \<open>
  An environment with a secret, requests that carry a bearer token, two identities with
  a role claim (tokens of another issuer that knows the secret), and a registration.
\<close>

definition auth_env0 :: auth_env where
  "auth_env0 = \<lparr>JWT_SECRET = Some ''s3cret'', JWT_EXPIRES_IN = None\<rparr>"

definition bearer :: "token \<Rightarrow> string \<Rightarrow> unit request" where
  "bearer t target = \<lparr>headers_authorization = Some [Opaque ''Bearer'', t], req_user = None,
                       params_userId = target, req_body = ()\<rparr>"

definition admin_claims :: claims where
  "admin_claims = \<lparr>tok_userId = ''u1'', tok_tenantId = ''T1'', tok_role = Some ''ADMIN''\<rparr>"

definition user_claims :: claims where
  "user_claims = \<lparr>tok_userId = ''u2'', tok_tenantId = ''T2'', tok_role = Some ''USER''\<rparr>"

definition carol_data :: CreateUserData where
  "carol_data = \<lparr>cu_email = ''a@x.com'', cu_password = ''hunter2'', cu_firstName = ''Carol'',
                 cu_lastName = ''Danvers'', cu_tenantId = ''T1''\<rparr>"

definition carol :: User where
  "carol = \<lparr>usr_id = ''u3'', usr_email = ''a@x.com'', usr_password = Bcrypt 10 ''salt3'' ''hunter2'',
            usr_firstName = ''Carol'', usr_lastName = ''Danvers'', usr_role = ''USER'',
            usr_tenantId = ''T1''\<rparr>"

definition carol_io :: user_io where
  "carol_io = \<lparr>uio_id = ''u3'', uio_salt = ''salt3''\<rparr>"


definition register_request :: "CreateUserData \<Rightarrow> CreateUserData request" where
  "register_request data = \<lparr>headers_authorization = None, req_user = None, params_userId = [],
                            req_body = data\<rparr>"

definition login_request :: "string \<Rightarrow> string \<Rightarrow> LoginData request" where
  "login_request email password =
     \<lparr>headers_authorization = None, req_user = None, params_userId = [],
      req_body = \<lparr>li_email = email, li_password = password\<rparr>\<rparr>"

definition role_request :: "token \<Rightarrow> string \<Rightarrow> string \<Rightarrow> ChangeRoleBody request" where
  "role_request t target role =
     \<lparr>headers_authorization = Some [Opaque ''Bearer'', t], req_user = None, params_userId = [],
      req_body = \<lparr>cr_userId = target, cr_role = role\<rparr>\<rparr>"

definition store_carol :: "real db" where
  "store_carol = store0\<lparr>users := [alice, bob, carol]\<rparr>"

definition carol_object :: obj where
  "carol_object = [(''id'', JStr ''u3''), (''email'', JStr ''a@x.com''),
                   (''firstName'', JStr ''Carol''), (''lastName'', JStr ''Danvers''),
                   (''role'', JStr ''USER''), (''tenantId'', JStr ''T1'')]"

section \<open>Lookups by key\<close>



section \<open>The services keep the primary keys\<close>

text \<open>
  A \<open>create\<close> is rejected when the id is taken, an \<open>update\<close> of the services never
  writes an id, and a \<open>delete\<close> only removes rows: every service call leads from a
  store that respects its primary keys to one that does.
\<close>

lemma create_row_distinct:
  "create_row key r rows = Inr (rows', r') \<Longrightarrow> distinct (map key rows) \<Longrightarrow> distinct (map key rows')"
  by (auto simp: create_row_def split: if_splits)

lemma update_row_keys:
  "update_row wh f rows = Inr (rows', r') \<Longrightarrow> (\<And>x. key (f x) = key x) \<Longrightarrow> map key rows' = map key rows"
  by (auto simp: update_row_def split: option.splits)

lemma delete_row_distinct:
  "delete_row wh rows = Inr (rows', r') \<Longrightarrow> distinct (map key rows) \<Longrightarrow> distinct (map key rows')"
  by (auto simp: delete_row_def distinct_map_filter split: option.splits)

lemma primary_keys_createFee:
  "primary_keys d \<Longrightarrow> createFee d a data = Inr (d', r) \<Longrightarrow> primary_keys d'"
  by (auto simp: primary_keys_def createFee_def fee_create_def
        split: if_splits sum.splits dest: create_row_distinct)

lemma primary_keys_createCommission:
  "primary_keys d \<Longrightarrow> createCommission d a data = Inr (d', r) \<Longrightarrow> primary_keys d'"
  by (auto simp: primary_keys_def createCommission_def commission_create_def Let_def
        split: option.splits if_splits sum.splits dest: create_row_distinct)

lemma primary_keys_updateFeeStatus:
  "primary_keys d \<Longrightarrow> updateFeeStatus d i t s p = Inr (d', r) \<Longrightarrow> primary_keys d'"
  by (auto simp: primary_keys_def updateFeeStatus_def fee_update_def
        split: sum.splits option.splits dest!: update_row_keys [where key = fee_id])

lemma primary_keys_updateCommissionStatus:
  "primary_keys d \<Longrightarrow> updateCommissionStatus d i t s p = Inr (d', r) \<Longrightarrow> primary_keys d'"
  by (auto simp: primary_keys_def updateCommissionStatus_def commission_update_def
        split: sum.splits option.splits dest!: update_row_keys [where key = com_id])

lemma primary_keys_createTemplate:
  "primary_keys d \<Longrightarrow> createTemplate d new data = Inr (d', r) \<Longrightarrow> primary_keys d'"
  by (auto simp: primary_keys_def createTemplate_def template_create_def
        split: if_splits sum.splits dest: create_row_distinct)

lemma primary_keys_updateTemplate:
  "primary_keys d \<Longrightarrow> updateTemplate d i t data = Inr (d', r) \<Longrightarrow> primary_keys d'"
  by (auto simp: primary_keys_def updateTemplate_def template_update_def apply_template_data_def
        split: sum.splits dest!: update_row_keys [where key = tpl_id])

lemma primary_keys_deleteTemplate:
  "primary_keys d \<Longrightarrow> deleteTemplate d i t = Inr (d', r) \<Longrightarrow> primary_keys d'"
  by (auto simp: primary_keys_def deleteTemplate_def template_delete_def
        split: sum.splits dest: delete_row_distinct)

lemma primary_keys_createDocument:
  "primary_keys d \<Longrightarrow> createDocument env d io file data meta = Inr (d', r) \<Longrightarrow> primary_keys d'"
  by (auto simp: primary_keys_def createDocument_def document_create_def Let_def
        split: if_splits sum.splits dest: create_row_distinct)

lemma primary_keys_createUser:
  "primary_keys d \<Longrightarrow> createUser env d io now data = Inr (d', r) \<Longrightarrow> primary_keys d'"
  by (auto simp: primary_keys_def createUser_def user_create_def Let_def
        split: option.splits if_splits sum.splits dest: create_row_distinct)

lemma primary_keys_changeUserRole:
  "primary_keys d \<Longrightarrow> changeUserRole d i role = Inr (d', r) \<Longrightarrow> primary_keys d'"
  by (auto simp: primary_keys_def changeUserRole_def user_update_def
        split: sum.splits dest!: update_row_keys [where key = usr_id])

lemma primary_keys_deleteUser:
  "primary_keys d \<Longrightarrow> deleteUser d i = Inr d' \<Longrightarrow> primary_keys d'"
  by (auto simp: primary_keys_def deleteUser_def user_delete_def delete_row_def
        distinct_map_filter split: sum.splits if_splits option.splits)

lemma primary_keys_updateDocument:
  assumes "primary_keys d" and "updateDocument env d io i t file meta = (d', res)"
  shows "primary_keys d'"
proof -
  have "distinct (map dv_id (documentVersions d')) \<and> map doc_id (documents d') = map doc_id (documents d)
        \<and> users d' = users d \<and> fees d' = fees d \<and> commissions d' = commissions d
        \<and> templates d' = templates d"
    using assms
    by (auto simp: primary_keys_def updateDocument_def documentVersion_create_def
          document_update_def create_row_def Let_def
          split: option.splits sum.splits if_splits
          dest!: update_row_keys [where key = doc_id])
  with assms(1) show ?thesis by (simp add: primary_keys_def)
qed

section \<open>Tenant isolation of the reads\<close>



section \<open>Evaluating the services on the example stores\<close>







section \<open>Tenant filter of the mutations\<close>



section \<open>The commission amount\<close>



section \<open>No recomputation of commissions\<close>



section \<open>What a successful updateDocument writes\<close>

lemma find_by_key_unique:
  "distinct (map key rows) \<Longrightarrow> find (\<lambda>x. key x = k \<and> P x) rows = Some r
     \<Longrightarrow> find (\<lambda>x. key x = k) rows = Some r"
proof (induction rows)
  case Nil
  then show ?case by simp
next
  case (Cons a rows)
  show ?case
  proof (cases "key a = k")
    case True
    show ?thesis
    proof (cases "P a")
      case True
      with \<open>key a = k\<close> Cons.prems show ?thesis by simp
    next
      case False
      with \<open>key a = k\<close> Cons.prems have "find (\<lambda>x. key x = k \<and> P x) rows = Some r" by simp
      then have "r \<in> set rows" "key r = k" by (auto simp: find_Some_iff nth_mem)
      then have "key a \<in> key ` set rows" using \<open>key a = k\<close> by force
      with Cons.prems(1) show ?thesis by simp
    qed
  next
    case False
    with Cons show ?thesis by simp
  qed
qed

lemma updateDocument_success:
  fixes env :: "'j doc_env" and d :: "'n db"
  defines "cdn \<equiv> (case DO_SPACES_CDN_URL env of None \<Rightarrow> ''undefined'' | Some u \<Rightarrow> u)"
  assumes pk: "distinct (map doc_id (documents d))"
      and ok: "updateDocument env d io i t file meta = (d', Inr doc')"
  shows "\<exists>old v. findFirst (\<lambda>x. doc_id x = i \<and> doc_tenantId x = t) (documents d) = Some old
     \<and> v = \<lparr>dv_id = io_rowid io, dv_documentId = i, dv_version = doc_version old + 1,
            dv_url = cdn @ ''/'' @ io_uuid io @ ''-'' @ doc_name old,
            dv_ocrText = (if doc_mimeType old \<in> set ocr_types
                          then Some ''Sample extracted text from document'' else None),
            dv_metadata = map_option (JSON_stringify env) meta,
            dv_createdBy = doc_createdBy old\<rparr>
     \<and> doc' = old\<lparr>doc_version := doc_version old + 1, doc_url := dv_url v,
                  doc_ocrText := (case dv_ocrText v of None \<Rightarrow> doc_ocrText old | Some x \<Rightarrow> Some x),
                  doc_metadata := (case dv_metadata v of None \<Rightarrow> doc_metadata old | Some m \<Rightarrow> Some m)\<rparr>
     \<and> d' = d\<lparr>documentVersions := documentVersions d @ [v],
              documents := map (\<lambda>x. if doc_id x = i then doc' else x) (documents d)\<rparr>"
proof -
  from ok obtain old where old: "findFirst (\<lambda>x. doc_id x = i \<and> doc_tenantId x = t) (documents d) = Some old"
    by (auto simp: updateDocument_def split: option.splits)
  then have f1: "find (\<lambda>x. doc_id x = i) (documents d) = Some old"
    using pk by (auto simp: findFirst_def intro: find_by_key_unique)
  have uniq: "\<And>x. x \<in> set (documents d) \<Longrightarrow> doc_id x = i \<Longrightarrow> x = old"
    using f1 pk by (metis (mono_tags, lifting) distinct_map find_Some_iff inj_onD nth_mem)
  show ?thesis
    using ok old f1 uniq
    by (auto simp: updateDocument_def uploadToSpaces_def documentVersion_create_def
          document_update_def create_row_def update_row_def extractTextFromDocument_def Let_def cdn_def
          split: if_splits sum.splits option.splits prod.splits)
qed

lemma find_map_replace:
  "find (\<lambda>x. key x = k) rows = Some old \<Longrightarrow> key new = k
     \<Longrightarrow> find (\<lambda>x. key x = k) (map (\<lambda>x. if key x = k then new else x) rows) = Some new"
  by (induction rows) (auto split: if_splits)

lemma map_key_replace:
  "key new = k \<Longrightarrow> map key (map (\<lambda>x. if key x = k then new else x) rows) = map key rows"
  by (induction rows) auto

lemma updateDocument_step:
  assumes pk: "distinct (map doc_id (documents d))"
      and cur: "findUnique (\<lambda>x. doc_id x = i) (documents d) = Some doc"
      and ok: "updateDocument env d io i t file meta = (d', Inr doc')"
  shows "distinct (map doc_id (documents d'))"
    and "findUnique (\<lambda>x. doc_id x = i) (documents d') = Some doc'"
    and "doc_version doc' = doc_version doc + 1"
    and "\<exists>v. versions_of d' i = versions_of d i @ [v] \<and> dv_version v = doc_version doc + 1"
    and "j \<noteq> i \<Longrightarrow> versions_of d' j = versions_of d j"
proof -
  from updateDocument_success [OF pk ok] obtain old v where
    old: "findFirst (\<lambda>x. doc_id x = i \<and> doc_tenantId x = t) (documents d) = Some old"
    and veq: "v = \<lparr>dv_id = io_rowid io, dv_documentId = i, dv_version = doc_version old + 1,
            dv_url = (case DO_SPACES_CDN_URL env of None \<Rightarrow> ''undefined'' | Some u \<Rightarrow> u)
                     @ ''/'' @ io_uuid io @ ''-'' @ doc_name old,
            dv_ocrText = (if doc_mimeType old \<in> set ocr_types
                          then Some ''Sample extracted text from document'' else None),
            dv_metadata = map_option (JSON_stringify env) meta,
            dv_createdBy = doc_createdBy old\<rparr>"
    and deq: "doc' = old\<lparr>doc_version := doc_version old + 1, doc_url := dv_url v,
                  doc_ocrText := (case dv_ocrText v of None \<Rightarrow> doc_ocrText old | Some x \<Rightarrow> Some x),
                  doc_metadata := (case dv_metadata v of None \<Rightarrow> doc_metadata old | Some m \<Rightarrow> Some m)\<rparr>"
    and d'eq: "d' = d\<lparr>documentVersions := documentVersions d @ [v],
              documents := map (\<lambda>x. if doc_id x = i then doc' else x) (documents d)\<rparr>"
    by blast
  have v: "dv_documentId v = i" "dv_version v = doc_version old + 1" by (simp_all add: veq)
  have doc': "doc_id doc' = doc_id old" "doc_version doc' = doc_version old + 1"
    by (simp_all add: deq)
  have d': "documentVersions d' = documentVersions d @ [v]"
            "documents d' = map (\<lambda>x. if doc_id x = i then doc' else x) (documents d)"
    by (simp_all add: d'eq)
  from old pk have "find (\<lambda>x. doc_id x = i) (documents d) = Some old"
    by (auto simp: findFirst_def intro: find_by_key_unique)
  with cur have same: "old = doc" and f: "find (\<lambda>x. doc_id x = i) (documents d) = Some doc"
    by (simp_all add: findUnique_def)
  from f have idd: "doc_id doc = i" by (auto simp: find_Some_iff)
  with doc' same have id': "doc_id doc' = i" by simp
  show "distinct (map doc_id (documents d'))"
    using pk by (simp only: d' map_key_replace [of doc_id, OF id'])
  show "findUnique (\<lambda>x. doc_id x = i) (documents d') = Some doc'"
    unfolding findUnique_def d' by (rule find_map_replace [OF f id'])
  show "doc_version doc' = doc_version doc + 1" using doc' same by simp
  show "\<exists>v. versions_of d' i = versions_of d i @ [v] \<and> dv_version v = doc_version doc + 1"
    using v same by (auto simp: versions_of_def findMany_def d')
  show "versions_of d' j = versions_of d j" if "j \<noteq> i"
    using v that by (auto simp: versions_of_def findMany_def d')
qed

lemma upto_next: "[v + 1 .. v + int (Suc n)] = (v + 1) # [(v + 1) + 1 .. (v + 1) + int n]"
proof -
  have e: "v + int (Suc n) = (v + 1) + int n" by simp
  have "v + 1 \<le> (v + 1) + int n" by simp
  from upto_rec1 [OF this] show ?thesis unfolding e .
qed

lemma updateDocuments_versions:
  assumes "distinct (map doc_id (documents d))"
      and "findUnique (\<lambda>x. doc_id x = i) (documents d) = Some doc"
      and "updateDocuments env d i t calls = Some d'"
  shows "distinct (map doc_id (documents d'))
       \<and> (\<exists>doc'. findUnique (\<lambda>x. doc_id x = i) (documents d') = Some doc'
              \<and> doc_version doc' = doc_version doc + int (length calls))
       \<and> map dv_version (versions_of d' i)
          = map dv_version (versions_of d i)
            @ [doc_version doc + 1 .. doc_version doc + int (length calls)]"
  using assms
proof (induction calls arbitrary: d doc)
  case Nil
  then show ?case by simp
next
  case (Cons c calls)
  obtain io buf meta where c: "c = (io, buf, meta)" by (cases c) auto
  from Cons.prems(3) c obtain dn docn where
    one: "updateDocument env d io i t buf meta = (dn, Inr docn)"
    and rest: "updateDocuments env dn i t calls = Some d'"
    by (auto split: prod.splits sum.splits)
  note st = updateDocument_step [OF Cons.prems(1,2) one]
  from st(4) obtain v where v: "versions_of dn i = versions_of d i @ [v]"
    "dv_version v = doc_version doc + 1" by blast
  from Cons.IH [OF st(1) st(2) rest] obtain doc' where
    ih: "distinct (map doc_id (documents d'))"
        "findUnique (\<lambda>x. doc_id x = i) (documents d') = Some doc'"
        "doc_version doc' = doc_version docn + int (length calls)"
        "map dv_version (versions_of d' i)
          = map dv_version (versions_of dn i)
            @ [doc_version docn + 1 .. doc_version docn + int (length calls)]"
    by blast
  have ver: "doc_version doc' = doc_version doc + int (length (c # calls))"
    using ih(3) st(3) by simp
  have "map dv_version (versions_of d' i)
          = map dv_version (versions_of d i)
            @ (doc_version doc + 1) # [(doc_version doc + 1) + 1 .. (doc_version doc + 1) + int (length calls)]"
    using ih(4) v st(3) by simp
  also have "(doc_version doc + 1) # [(doc_version doc + 1) + 1 .. (doc_version doc + 1) + int (length calls)]
      = [doc_version doc + 1 .. doc_version doc + int (length (c # calls))]"
    using upto_next [of "doc_version doc" "length calls"] by simp
  finally show ?case using ih(1,2) ver by blast
qed

lemmas document_example_defs = env0_def upload1_def upload2_def upload3_def ver1_def ver2_def
  doc1_v2_def doc1_v3_def store_v2_def store_v3_def scan_data_def doc2_def store0_def doc1_def
  alice_def bob_def

lemmas document_service_defs = createDocument_def updateDocument_def uploadToSpaces_def
  extractTextFromDocument_def ocr_types_def document_create_def document_update_def
  documentVersion_create_def create_row_def update_row_def findFirst_def findUnique_def
  findMany_def versions_of_def Let_def

lemma update_doc1_first:
  "updateDocument env0 store0 upload1 ''doc1'' ''T1'' [37, 80, 68, 70] None = (store_v2, Inr doc1_v2)"
  by (simp add: document_example_defs document_service_defs)

lemma update_doc1_second:
  "updateDocument env0 store_v2 upload2 ''doc1'' ''T1'' [80, 75] (Some ''{v:2}'') = (store_v3, Inr doc1_v3)"
  by (simp add: document_example_defs document_service_defs)



section \<open>Version bookkeeping\<close>

text \<open>
  C5, as stated, fails on the version numbers: the row that \<open>updateDocument\<close> inserts
  carries \<open>document.version + 1\<close>, so the first update of a document at version 1
  records version 2, not 1.
\<close>

theorem C5_version_numbers_counterexample:
  "doc_version doc1 = 1 \<and> versions_of store0 ''doc1'' = []
   \<and> updateDocuments env0 store0 ''doc1'' ''T1'' [(upload1, [37, 80, 68, 70], None)] = Some store_v2
   \<and> map dv_version (versions_of store_v2 ''doc1'') = [2]
   \<and> map dv_version (versions_of store_v2 ''doc1'') \<noteq> [1]"
  using update_doc1_first
  by (simp add: document_example_defs versions_of_def findMany_def)


text \<open>
  C5, amended. For a document at version 1 without version rows, after \<open>N\<close> successful
  \<open>updateDocument\<close> calls the document's version is \<open>N + 1\<close>, it has exactly \<open>N\<close>
  version rows, and these carry the version numbers \<open>2, \<dots>, N + 1\<close> in upload order;
  the document's version is the number of its version rows plus 1.
\<close>

theorem C5_version_bookkeeping:
  assumes "distinct (map doc_id (documents d))"
      and "findUnique (\<lambda>x. doc_id x = i) (documents d) = Some doc"
      and "doc_version doc = 1"
      and "versions_of d i = []"
      and "updateDocuments env d i t calls = Some d'"
  shows "\<exists>doc'. findUnique (\<lambda>x. doc_id x = i) (documents d') = Some doc'
           \<and> doc_version doc' = int (length calls) + 1
           \<and> length (versions_of d' i) = length calls
           \<and> map dv_version (versions_of d' i) = [2 .. int (length calls) + 1]
           \<and> doc_version doc' = int (length (versions_of d' i)) + 1"
proof -
  from updateDocuments_versions [OF assms(1,2,5)] assms(3,4) obtain doc' where
    f: "findUnique (\<lambda>x. doc_id x = i) (documents d') = Some doc'"
    and v: "doc_version doc' = 1 + int (length calls)"
    and m: "map dv_version (versions_of d' i) = [1 + 1 .. 1 + int (length calls)]"
    by auto
  from m have "length (map dv_version (versions_of d' i)) = length [1 + 1 .. 1 + int (length calls)]"
    by simp
  then have l: "length (versions_of d' i) = length calls" by simp
  from f v l m show ?thesis by (simp add: add.commute)
qed

theorem C5_version_bookkeeping_witness:
  "distinct (map doc_id (documents store0))
   \<and> findUnique (\<lambda>x. doc_id x = ''doc1'') (documents store0) = Some doc1
   \<and> doc_version doc1 = 1 \<and> versions_of store0 ''doc1'' = []
   \<and> updateDocuments env0 store0 ''doc1'' ''T1''
        [(upload1, [37, 80, 68, 70], None), (upload2, [80, 75], Some ''{v:2}'')] = Some store_v3
   \<and> findUnique (\<lambda>x. doc_id x = ''doc1'') (documents store_v3) = Some doc1_v3
   \<and> doc_version doc1_v3 = 3
   \<and> map dv_version (versions_of store_v3 ''doc1'') = [2, 3]"
proof -
  have a: "distinct (map doc_id (documents store0))" by (simp add: store0_def)
  have b: "findUnique (\<lambda>x. doc_id x = ''doc1'') (documents store0) = Some doc1"
    by (simp add: store0_def doc1_def findUnique_def)
  have c: "doc_version doc1 = 1" by (simp add: doc1_def)
  have e: "versions_of store0 ''doc1'' = []" by (simp add: versions_of_def findMany_def store0_def)
  have r: "updateDocuments env0 store0 ''doc1'' ''T1''
        [(upload1, [37, 80, 68, 70], None), (upload2, [80, 75], Some ''{v:2}'')] = Some store_v3"
    by (simp add: update_doc1_first update_doc1_second)
  from C5_version_bookkeeping [OF a b c e r] a b c e r show ?thesis
    by (simp add: store_v3_def doc1_v3_def ver1_def ver2_def versions_of_def findMany_def
          findUnique_def doc1_def)
qed


section \<open>Content of a version row\<close>






section \<open>The OCR allow-list\<close>



section \<open>Evaluating the user service and the middleware\<close>

lemmas auth_example_defs = auth_env0_def bearer_def admin_claims_def user_claims_def
  carol_data_def carol_def carol_io_def store0_def alice_def bob_def fee1_def tpl1_def doc1_def

lemmas auth_defs = authenticateToken_def header_token_def jwt_verify_def jwt_sign_def
  jwt_secret_def jwt_expiresIn_def generateToken_def requireRole_def findFirst_def
  findUnique_def findMany_def error_body_def

lemmas user_service_defs = createUser_def login_def getUserProfile_def deleteUser_def
  user_create_def user_delete_def user_referenced_def create_row_def delete_row_def
  sanitizeUser_def user_object_def bcrypt_hash_def bcrypt_compare_def

lemma admin_authenticated:
  "authenticateToken auth_env0 store0 1500 (bearer (Jwt admin_claims ''s3cret'' 2000) ''u2'')
     = Next ((bearer (Jwt admin_claims ''s3cret'' 2000) ''u2'')\<lparr>req_user := Some admin_claims\<rparr>)"
  by (simp add: auth_example_defs auth_defs)

lemma user_authenticated:
  "authenticateToken auth_env0 store0 1500 (bearer (Jwt user_claims ''s3cret'' 2000) ''u2'')
     = Next ((bearer (Jwt user_claims ''s3cret'' 2000) ''u2'')\<lparr>req_user := Some user_claims\<rparr>)"
  by (simp add: auth_example_defs auth_defs)

lemma find_append_new: "\<forall>x \<in> set xs. \<not> P x \<Longrightarrow> P y \<Longrightarrow> find P (xs @ [y]) = Some y"
  by (induction xs) auto

lemma createUser_duplicate:
  assumes "cu_email data \<in> set (map usr_email (users d))"
  shows "createUser env d io now data = Inl (AppError ''User already exists'' 400)"
proof -
  from assms have "find (\<lambda>u. usr_email u = cu_email data) (users d) \<noteq> None"
    by (auto simp: find_None_iff)
  then show ?thesis by (auto simp: createUser_def findUnique_def)
qed

lemma createUser_success:
  assumes "createUser env d io now data = Inr (d', res)"
  shows "\<exists>user. user = \<lparr>usr_id = uio_id io, usr_email = cu_email data,
                      usr_password = Bcrypt 10 (uio_salt io) (cu_password data),
                      usr_firstName = cu_firstName data, usr_lastName = cu_lastName data,
                      usr_role = ''USER'', usr_tenantId = cu_tenantId data\<rparr>
           \<and> d' = d\<lparr>users := users d @ [user]\<rparr>
           \<and> res = \<lparr>res_user = sanitizeUser (user_object user),
                     res_token = generateToken env now (uio_id io) (cu_tenantId data)\<rparr>
           \<and> (\<forall>x \<in> set (users d). usr_email x \<noteq> cu_email data)
           \<and> (\<forall>x \<in> set (users d). usr_id x \<noteq> uio_id io)"
  using assms
  by (auto simp: createUser_def user_create_def create_row_def bcrypt_hash_def Let_def image_iff
        split: option.splits if_splits sum.splits)

lemma sanitized_user_object:
  "sanitizeUser (user_object u)
     = [(''id'', JStr (usr_id u)), (''email'', JStr (usr_email u)),
        (''firstName'', JStr (usr_firstName u)), (''lastName'', JStr (usr_lastName u)),
        (''role'', JStr (usr_role u)), (''tenantId'', JStr (usr_tenantId u))]"
  by (simp add: sanitizeUser_def user_object_def)

lemma sanitizeUser_no_password: "''password'' \<notin> fst ` set (sanitizeUser user)"
  by (auto simp: sanitizeUser_def)

lemma register_Respond:
  assumes "register env d io now req = (d', Respond st body)"
  obtains res where "createUser env d io now (req_body req) = Inr (d', res)"
    and "st = 201"
    and "body = JObj [(''user'', JObj [(''user'', JObj (res_user res)),
                                        (''token'', JToken (res_token res))])]"
  using assms by (auto simp: register_def split: sum.splits)

lemma register_carol:
  "register auth_env0 store0 carol_io 1000 (register_request carol_data)
     = (store_carol,
        Respond 201 (JObj [(''user'', JObj [(''user'', JObj carol_object),
                                            (''token'', JToken (generateToken auth_env0 1000 ''u3'' ''T1''))])]))"
  by (simp add: register_def register_request_def store_carol_def carol_object_def
        auth_example_defs user_service_defs findUnique_def)


section \<open>The role gate\<close>

text \<open>
  C8. For a request that carries an identity, \<open>requireRole roles\<close> answers 403 when
  the identity's role is not in \<open>roles\<close> and otherwise hands the same request on. On
  \<open>DELETE /api/users/:userId\<close>, once \<open>authenticateToken\<close> has attached the identity, a
  role other than \<open>ADMIN\<close> gets 403 whatever the tenants of caller and target are, and
  the role \<open>ADMIN\<close> reaches the controller.
\<close>

theorem C8_role_gate:
  assumes "req_user req = Some u"
  shows "requireRole roles req
           = (if tok_role u \<in> Some ` set roles then Next req
              else Respond 403 (error_body ''Insufficient permissions''))
       \<and> (authenticateToken env d now req0 = Next req \<longrightarrow>
            (tok_role u \<noteq> Some ''ADMIN'' \<longrightarrow>
               route_delete_user env d now req0
                 = (d, Respond 403 (error_body ''Insufficient permissions'')))
            \<and> (tok_role u = Some ''ADMIN'' \<longrightarrow>
               route_delete_user env d now req0 = deleteUser_ctl d req))"
  using assms
  by (auto simp: requireRole_def route_delete_user_def split: option.splits)


theorem C8_role_gate_witness:
  "authenticateToken auth_env0 store0 1500 (bearer (Jwt user_claims ''s3cret'' 2000) ''u2'')
     = Next ((bearer (Jwt user_claims ''s3cret'' 2000) ''u2'')\<lparr>req_user := Some user_claims\<rparr>)
   \<and> tok_role user_claims \<noteq> Some ''ADMIN''
   \<and> route_delete_user auth_env0 store0 1500 (bearer (Jwt user_claims ''s3cret'' 2000) ''u2'')
       = (store0, Respond 403 (error_body ''Insufficient permissions''))
   \<and> authenticateToken auth_env0 store0 1500 (bearer (Jwt admin_claims ''s3cret'' 2000) ''u2'')
       = Next ((bearer (Jwt admin_claims ''s3cret'' 2000) ''u2'')\<lparr>req_user := Some admin_claims\<rparr>)
   \<and> tok_role admin_claims = Some ''ADMIN''
   \<and> requireRole [''ADMIN'']
         ((bearer (Jwt admin_claims ''s3cret'' 2000) ''u2'')\<lparr>req_user := Some admin_claims\<rparr>)
       = Next ((bearer (Jwt admin_claims ''s3cret'' 2000) ''u2'')\<lparr>req_user := Some admin_claims\<rparr>)
   \<and> route_delete_user auth_env0 store0 1500 (bearer (Jwt admin_claims ''s3cret'' 2000) ''u2'')
       = (store0\<lparr>users := [alice]\<rparr>, Respond 204 JNone)"
proof -
  have ru: "req_user ((bearer (Jwt user_claims ''s3cret'' 2000) ''u2'')\<lparr>req_user := Some user_claims\<rparr>)
              = Some user_claims" by simp
  have ra: "req_user ((bearer (Jwt admin_claims ''s3cret'' 2000) ''u2'')\<lparr>req_user := Some admin_claims\<rparr>)
              = Some admin_claims" by simp
  have nu: "tok_role user_claims \<noteq> Some ''ADMIN''" by (simp add: user_claims_def)
  have na: "tok_role admin_claims = Some ''ADMIN''" by (simp add: admin_claims_def)
  have del: "deleteUser_ctl store0
       ((bearer (Jwt admin_claims ''s3cret'' 2000) ''u2'')\<lparr>req_user := Some admin_claims\<rparr>)
       = (store0\<lparr>users := [alice]\<rparr>, Respond 204 JNone)"
    by (simp add: deleteUser_ctl_def auth_example_defs user_service_defs)
  from C8_role_gate [OF ru, of "[''ADMIN'']" auth_env0 store0 1500
      "bearer (Jwt user_claims ''s3cret'' 2000) ''u2''"] user_authenticated nu
  have a: "route_delete_user auth_env0 store0 1500 (bearer (Jwt user_claims ''s3cret'' 2000) ''u2'')
       = (store0, Respond 403 (error_body ''Insufficient permissions''))" by blast
  from C8_role_gate [OF ra, of "[''ADMIN'']" auth_env0 store0 1500
      "bearer (Jwt admin_claims ''s3cret'' 2000) ''u2''"] admin_authenticated na
  have b: "requireRole [''ADMIN'']
         ((bearer (Jwt admin_claims ''s3cret'' 2000) ''u2'')\<lparr>req_user := Some admin_claims\<rparr>)
       = Next ((bearer (Jwt admin_claims ''s3cret'' 2000) ''u2'')\<lparr>req_user := Some admin_claims\<rparr>)"
    and c: "route_delete_user auth_env0 store0 1500 (bearer (Jwt admin_claims ''s3cret'' 2000) ''u2'')
       = deleteUser_ctl store0
           ((bearer (Jwt admin_claims ''s3cret'' 2000) ''u2'')\<lparr>req_user := Some admin_claims\<rparr>)"
    by simp_all
  from user_authenticated nu a admin_authenticated na b c del show ?thesis by simp
qed


section \<open>Registration, login and profile\<close>

text \<open>
  C9. \<open>POST /register\<close> with an email that a user already has fails with the error of
  status 400 and leaves the store as it was. When it answers, the status is 201 and the
  body holds the new user's object without the key \<open>password\<close> and with the email of
  the request. After a successful registration, logging in with the same credentials
  answers 200 with a token, and \<open>GET /profile\<close> with that token, before it expires,
  answers 200 with an object that has the same email and no key \<open>password\<close>.
\<close>

theorem C9_register_and_profile:
  fixes req :: "CreateUserData request" and lreq :: "LoginData request" and preq :: "'b request"
  shows "(cu_email (req_body req) \<in> set (map usr_email (users d)) \<longrightarrow>
            register env d io now req = (d, Forward (AppError ''User already exists'' 400))
            \<and> response_status (snd (register env d io now req)) = Some 400)
       \<and> (register env d io now req = (d', Respond st body) \<longrightarrow>
            st = 201
            \<and> (\<exists>usr tok. body = JObj [(''user'', JObj [(''user'', JObj usr), (''token'', JToken tok)])]
                  \<and> ''password'' \<notin> fst ` set usr
                  \<and> map_of usr ''email'' = Some (JStr (cu_email (req_body req)))))
       \<and> (register env d io now req = (d', Respond st body)
            \<and> req_body lreq = \<lparr>li_email = cu_email (req_body req),
                                 li_password = cu_password (req_body req)\<rparr>
            \<and> header_token preq
                = Some (generateToken env now1 (uio_id io) (cu_tenantId (req_body req)))
            \<and> uio_id io \<noteq> [] \<and> now2 < now1 + jwt_expiresIn env \<longrightarrow>
            (\<exists>usr. login_ctl env d' now1 lreq
                     = Respond 200
                         (JObj [(''user'', JObj usr),
                                (''token'', JToken (generateToken env now1 (uio_id io)
                                                      (cu_tenantId (req_body req))))]))
            \<and> (\<exists>usr. route_get_profile env d' now2 preq = Respond 200 (JObj [(''user'', JObj usr)])
                  \<and> ''password'' \<notin> fst ` set usr
                  \<and> map_of usr ''email'' = Some (JStr (cu_email (req_body req)))))"
proof (intro conjI impI)
  assume "cu_email (req_body req) \<in> set (map usr_email (users d))"
  from createUser_duplicate [OF this]
  show "register env d io now req = (d, Forward (AppError ''User already exists'' 400))"
    by (simp add: register_def)
  then show "response_status (snd (register env d io now req)) = Some 400"
    by (simp add: response_status_def errorHandler_status_def)
next
  assume h: "register env d io now req = (d', Respond st body)"
  from h show "st = 201" by (rule register_Respond)
  from h obtain res where c: "createUser env d io now (req_body req) = Inr (d', res)"
    and b: "body = JObj [(''user'', JObj [(''user'', JObj (res_user res)),
                                          (''token'', JToken (res_token res))])]"
    by (rule register_Respond)
  define user where "user = \<lparr>usr_id = uio_id io, usr_email = cu_email (req_body req),
                      usr_password = Bcrypt 10 (uio_salt io) (cu_password (req_body req)),
                      usr_firstName = cu_firstName (req_body req),
                      usr_lastName = cu_lastName (req_body req),
                      usr_role = ''USER'', usr_tenantId = cu_tenantId (req_body req)\<rparr>"
  have u: "usr_email user = cu_email (req_body req)" by (simp add: user_def)
  from createUser_success [OF c] have r: "res_user res = sanitizeUser (user_object user)"
    by (auto simp: user_def)
  show "\<exists>usr tok. body = JObj [(''user'', JObj [(''user'', JObj usr), (''token'', JToken tok)])]
                  \<and> ''password'' \<notin> fst ` set usr
                  \<and> map_of usr ''email'' = Some (JStr (cu_email (req_body req)))"
  proof (rule exI [of _ "res_user res"], rule exI [of _ "res_token res"], intro conjI)
    show "body = JObj [(''user'', JObj [(''user'', JObj (res_user res)),
                                        (''token'', JToken (res_token res))])]" by (rule b)
    show "''password'' \<notin> fst ` set (res_user res)" unfolding r by (rule sanitizeUser_no_password)
    show "map_of (res_user res) ''email'' = Some (JStr (cu_email (req_body req)))"
      by (simp add: r sanitized_user_object u)
  qed
next
  assume h: "register env d io now req = (d', Respond st body)
            \<and> req_body lreq = \<lparr>li_email = cu_email (req_body req),
                                 li_password = cu_password (req_body req)\<rparr>
            \<and> header_token preq
                = Some (generateToken env now1 (uio_id io) (cu_tenantId (req_body req)))
            \<and> uio_id io \<noteq> [] \<and> now2 < now1 + jwt_expiresIn env"
  then have reg: "register env d io now req = (d', Respond st body)"
    and lb: "req_body lreq = \<lparr>li_email = cu_email (req_body req),
                                 li_password = cu_password (req_body req)\<rparr>"
    and ht: "header_token preq
                = Some (generateToken env now1 (uio_id io) (cu_tenantId (req_body req)))"
    and ne: "uio_id io \<noteq> []" and fresh: "now2 < now1 + jwt_expiresIn env"
    by simp_all
  from reg obtain res where c: "createUser env d io now (req_body req) = Inr (d', res)"
    by (rule register_Respond)
  define user where "user = \<lparr>usr_id = uio_id io, usr_email = cu_email (req_body req),
                      usr_password = Bcrypt 10 (uio_salt io) (cu_password (req_body req)),
                      usr_firstName = cu_firstName (req_body req),
                      usr_lastName = cu_lastName (req_body req),
                      usr_role = ''USER'', usr_tenantId = cu_tenantId (req_body req)\<rparr>"
  from createUser_success [OF c] have
    us: "users d' = users d @ [user]"
    and noemail: "\<forall>x \<in> set (users d). usr_email x \<noteq> cu_email (req_body req)"
    and noid: "\<forall>x \<in> set (users d). usr_id x \<noteq> uio_id io"
    by (auto simp: user_def)
  have by_email: "find (\<lambda>u. usr_email u = cu_email (req_body req)) (users d') = Some user"
    unfolding us by (rule find_append_new) (use noemail in \<open>auto simp: user_def\<close>)
  have by_id: "find (\<lambda>u. usr_id u = uio_id io) (users d') = Some user"
    unfolding us by (rule find_append_new) (use noid in \<open>auto simp: user_def\<close>)
  have "user \<in> set (users d')" by (simp add: us)
  moreover have "usr_id user = uio_id io \<and> usr_tenantId user = cu_tenantId (req_body req)"
    by (simp add: user_def)
  ultimately
  have "find (\<lambda>u. usr_id u = uio_id io \<and> usr_tenantId u = cu_tenantId (req_body req)) (users d')
          \<noteq> None"
    unfolding find_None_iff by blast
  then obtain w where by_both:
    "find (\<lambda>u. usr_id u = uio_id io \<and> usr_tenantId u = cu_tenantId (req_body req)) (users d')
       = Some w" by blast
  have lg: "login_ctl env d' now1 lreq
              = Respond 200
                  (JObj [(''user'', JObj (sanitizeUser (user_object user))),
                         (''token'', JToken (generateToken env now1 (uio_id io)
                                               (cu_tenantId (req_body req))))])"
    by (simp add: login_ctl_def login_def findUnique_def lb by_email bcrypt_compare_def)
       (simp add: user_def)
  then show "\<exists>usr. login_ctl env d' now1 lreq
                     = Respond 200
                         (JObj [(''user'', JObj usr),
                                (''token'', JToken (generateToken env now1 (uio_id io)
                                                      (cu_tenantId (req_body req))))])"
    by blast
  have au: "authenticateToken env d' now2 preq
              = Next (preq\<lparr>req_user := Some \<lparr>tok_userId = uio_id io,
                                               tok_tenantId = cu_tenantId (req_body req),
                                               tok_role = None\<rparr>\<rparr>)"
    using fresh by (simp add: authenticateToken_def ht generateToken_def jwt_sign_def
          jwt_verify_def findFirst_def by_both)
  have pr: "route_get_profile env d' now2 preq
              = Respond 200 (JObj [(''user'', JObj (sanitizeUser (user_object user)))])"
    using ne by (simp add: route_get_profile_def au getProfile_def getUserProfile_def
          findUnique_def by_id)
  show "\<exists>usr. route_get_profile env d' now2 preq = Respond 200 (JObj [(''user'', JObj usr)])
                  \<and> ''password'' \<notin> fst ` set usr
                  \<and> map_of usr ''email'' = Some (JStr (cu_email (req_body req)))"
  proof (rule exI [of _ "sanitizeUser (user_object user)"], intro conjI)
    show "route_get_profile env d' now2 preq
            = Respond 200 (JObj [(''user'', JObj (sanitizeUser (user_object user)))])" by (rule pr)
    show "''password'' \<notin> fst ` set (sanitizeUser (user_object user))"
      by (rule sanitizeUser_no_password)
    show "map_of (sanitizeUser (user_object user)) ''email'' = Some (JStr (cu_email (req_body req)))"
      by (simp add: sanitized_user_object user_def)
  qed
qed


theorem C9_register_and_profile_witness:
  "cu_email (req_body (register_request (carol_data\<lparr>cu_email := ''alice@t1.example''\<rparr>)))
      \<in> set (map usr_email (users store0))
   \<and> register auth_env0 store0 carol_io 1000
        (register_request (carol_data\<lparr>cu_email := ''alice@t1.example''\<rparr>))
       = (store0, Forward (AppError ''User already exists'' 400))
   \<and> register auth_env0 store0 carol_io 1000 (register_request carol_data)
       = (store_carol,
          Respond 201 (JObj [(''user'', JObj [(''user'', JObj carol_object),
                                              (''token'', JToken (generateToken auth_env0 1000 ''u3'' ''T1''))])]))
   \<and> req_body (login_request ''a@x.com'' ''hunter2'')
       = \<lparr>li_email = cu_email (req_body (register_request carol_data)),
          li_password = cu_password (req_body (register_request carol_data))\<rparr>
   \<and> header_token (bearer (generateToken auth_env0 1100 ''u3'' ''T1'') [])
       = Some (generateToken auth_env0 1100 (uio_id carol_io)
                 (cu_tenantId (req_body (register_request carol_data))))
   \<and> uio_id carol_io \<noteq> [] \<and> (1200::nat) < 1100 + jwt_expiresIn auth_env0
   \<and> login_ctl auth_env0 store_carol 1100 (login_request ''a@x.com'' ''hunter2'')
       = Respond 200 (JObj [(''user'', JObj carol_object),
                            (''token'', JToken (generateToken auth_env0 1100 ''u3'' ''T1''))])
   \<and> route_get_profile auth_env0 store_carol 1200 (bearer (generateToken auth_env0 1100 ''u3'' ''T1'') [])
       = Respond 200 (JObj [(''user'', JObj carol_object)])
   \<and> map_of carol_object ''email'' = Some (JStr ''a@x.com'')
   \<and> ''password'' \<notin> fst ` set carol_object"
proof -
  let ?dup = "register_request (carol_data\<lparr>cu_email := ''alice@t1.example''\<rparr>)"
  let ?preq = "bearer (generateToken auth_env0 1100 ''u3'' ''T1'') []"
  have h1: "cu_email (req_body ?dup) \<in> set (map usr_email (users store0))"
    by (simp add: register_request_def auth_example_defs)
  have h2: "req_body (login_request ''a@x.com'' ''hunter2'')
       = \<lparr>li_email = cu_email (req_body (register_request carol_data)),
          li_password = cu_password (req_body (register_request carol_data))\<rparr>"
    by (simp add: login_request_def register_request_def carol_data_def)
  have h3: "header_token ?preq
       = Some (generateToken auth_env0 1100 (uio_id carol_io)
                 (cu_tenantId (req_body (register_request carol_data))))"
    by (simp add: header_token_def bearer_def carol_io_def register_request_def carol_data_def)
  have h4: "uio_id carol_io \<noteq> []" by (simp add: carol_io_def)
  have h5: "(1200::nat) < 1100 + jwt_expiresIn auth_env0"
    by (simp add: jwt_expiresIn_def auth_env0_def)
  note inst = C9_register_and_profile [of ?dup store0 auth_env0 carol_io 1000]
  from inst h1 have dup: "register auth_env0 store0 carol_io 1000 ?dup
       = (store0, Forward (AppError ''User already exists'' 400))" by blast
  have lg: "login_ctl auth_env0 store_carol 1100 (login_request ''a@x.com'' ''hunter2'')
       = Respond 200 (JObj [(''user'', JObj carol_object),
                            (''token'', JToken (generateToken auth_env0 1100 ''u3'' ''T1''))])"
    by (simp add: login_ctl_def login_request_def store_carol_def carol_object_def
          auth_example_defs user_service_defs findUnique_def)
  have pr: "route_get_profile auth_env0 store_carol 1200 ?preq
       = Respond 200 (JObj [(''user'', JObj carol_object)])"
    by (simp add: route_get_profile_def getProfile_def store_carol_def carol_object_def
          auth_example_defs auth_defs user_service_defs)
  have ob: "map_of carol_object ''email'' = Some (JStr ''a@x.com'')"
    "''password'' \<notin> fst ` set carol_object"
    by (simp_all add: carol_object_def)
  from C9_register_and_profile [where req = "register_request carol_data" and d = store0
      and env = auth_env0 and io = carol_io and now = 1000 and d' = store_carol and st = 201
      and body = "JObj [(''user'', JObj [(''user'', JObj carol_object),
                          (''token'', JToken (generateToken auth_env0 1000 ''u3'' ''T1''))])]"
      and lreq = "login_request ''a@x.com'' ''hunter2''" and preq = ?preq and ?now1.0 = 1100
      and ?now2.0 = 1200] register_carol h2 h3 h4 h5
  have "\<exists>usr. route_get_profile auth_env0 store_carol 1200 ?preq
                 = Respond 200 (JObj [(''user'', JObj usr)])
              \<and> ''password'' \<notin> fst ` set usr
              \<and> map_of usr ''email'' = Some (JStr (cu_email (req_body (register_request carol_data))))"
    by blast
  with pr have "''password'' \<notin> fst ` set carol_object" by auto
  with dup h1 h2 h3 h4 h5 register_carol lg pr ob(1) show ?thesis by simp
qed


section \<open>Issued tokens and the role gate\<close>

text \<open>
  C10. The token that \<open>generateToken\<close> issues has a payload of \<open>userId\<close> and \<open>tenantId\<close>
  only. \<open>authenticateToken\<close> attaches that payload as the identity, so the identity
  has no role and \<open>requireRole\<close> answers 403 for every role list. With an unexpired
  issued token of an existing user, whatever role the store holds for that user, the
  three role-gated routes \<open>GET /\<close>, \<open>PATCH /role\<close> and \<open>DELETE /:userId\<close> answer 403
  and leave the store as it was.
\<close>

theorem C10_issued_token_has_no_role:
  fixes req :: "'b request" and rreq :: "ChangeRoleBody request"
  assumes "header_token req = Some (generateToken env now0 uid tid)"
      and "header_token rreq = Some (generateToken env now0 uid tid)"
  shows "generateToken env now0 uid tid
           = Jwt \<lparr>tok_userId = uid, tok_tenantId = tid, tok_role = None\<rparr> (jwt_secret env)
               (now0 + jwt_expiresIn env)
       \<and> (authenticateToken env d now req = Next req1 \<longrightarrow>
            req_user req1 = Some \<lparr>tok_userId = uid, tok_tenantId = tid, tok_role = None\<rparr>
            \<and> requireRole roles req1 = Respond 403 (error_body ''Insufficient permissions''))
       \<and> (now < now0 + jwt_expiresIn env
            \<and> (\<exists>u \<in> set (users d). usr_id u = uid \<and> usr_tenantId u = tid) \<longrightarrow>
            route_list_users env d now req
              = Respond 403 (error_body ''Insufficient permissions'')
            \<and> route_patch_role env d now rreq
              = (d, Respond 403 (error_body ''Insufficient permissions''))
            \<and> route_delete_user env d now req
              = (d, Respond 403 (error_body ''Insufficient permissions'')))"
proof (intro conjI impI)
  show g: "generateToken env now0 uid tid
           = Jwt \<lparr>tok_userId = uid, tok_tenantId = tid, tok_role = None\<rparr> (jwt_secret env)
               (now0 + jwt_expiresIn env)"
    by (simp add: generateToken_def jwt_sign_def add.commute)
  {
    assume a: "authenticateToken env d now req = Next req1"
    then show u: "req_user req1 = Some \<lparr>tok_userId = uid, tok_tenantId = tid, tok_role = None\<rparr>"
      by (auto simp: authenticateToken_def assms(1) g jwt_verify_def
            split: if_splits option.splits)
    then show "requireRole roles req1 = Respond 403 (error_body ''Insufficient permissions'')"
      by (simp add: requireRole_def)
  }
  assume v: "now < now0 + jwt_expiresIn env
            \<and> (\<exists>u \<in> set (users d). usr_id u = uid \<and> usr_tenantId u = tid)"
  then have "find (\<lambda>u. usr_id u = uid \<and> usr_tenantId u = tid) (users d) \<noteq> None"
    unfolding find_None_iff by blast
  then obtain w where w: "find (\<lambda>u. usr_id u = uid \<and> usr_tenantId u = tid) (users d) = Some w"
    by blast
  have a1: "authenticateToken env d now req
              = Next (req\<lparr>req_user := Some \<lparr>tok_userId = uid, tok_tenantId = tid, tok_role = None\<rparr>\<rparr>)"
    using v by (simp add: authenticateToken_def assms(1) g jwt_verify_def findFirst_def w)
  have a2: "authenticateToken env d now rreq
              = Next (rreq\<lparr>req_user := Some \<lparr>tok_userId = uid, tok_tenantId = tid, tok_role = None\<rparr>\<rparr>)"
    using v by (simp add: authenticateToken_def assms(2) g jwt_verify_def findFirst_def w)
  show "route_list_users env d now req = Respond 403 (error_body ''Insufficient permissions'')"
    by (simp add: route_list_users_def a1 requireRole_def)
  show "route_patch_role env d now rreq = (d, Respond 403 (error_body ''Insufficient permissions''))"
    by (simp add: route_patch_role_def a2 requireRole_def)
  show "route_delete_user env d now req = (d, Respond 403 (error_body ''Insufficient permissions''))"
    by (simp add: route_delete_user_def a1 requireRole_def)
qed

theorem C10_issued_token_has_no_role_witness:
  "usr_role alice = ''ADMIN'' \<and> alice \<in> set (users store0)
   \<and> login auth_env0 store0 1000 \<lparr>li_email = ''alice@t1.example'', li_password = ''wonderland''\<rparr>
       = Inr \<lparr>res_user = sanitizeUser (user_object alice),
              res_token = generateToken auth_env0 1000 ''u1'' ''T1''\<rparr>
   \<and> header_token (bearer (generateToken auth_env0 1000 ''u1'' ''T1'') ''u2'')
       = Some (generateToken auth_env0 1000 ''u1'' ''T1'')
   \<and> header_token (role_request (generateToken auth_env0 1000 ''u1'' ''T1'') ''u2'' ''ADMIN'')
       = Some (generateToken auth_env0 1000 ''u1'' ''T1'')
   \<and> (1500::nat) < 1000 + jwt_expiresIn auth_env0
   \<and> authenticateToken auth_env0 store0 1500 (bearer (generateToken auth_env0 1000 ''u1'' ''T1'') ''u2'')
       = Next ((bearer (generateToken auth_env0 1000 ''u1'' ''T1'') ''u2'')
                 \<lparr>req_user := Some \<lparr>tok_userId = ''u1'', tok_tenantId = ''T1'', tok_role = None\<rparr>\<rparr>)
   \<and> route_list_users auth_env0 store0 1500 (bearer (generateToken auth_env0 1000 ''u1'' ''T1'') ''u2'')
       = Respond 403 (error_body ''Insufficient permissions'')
   \<and> route_patch_role auth_env0 store0 1500
        (role_request (generateToken auth_env0 1000 ''u1'' ''T1'') ''u2'' ''ADMIN'')
       = (store0, Respond 403 (error_body ''Insufficient permissions''))
   \<and> route_delete_user auth_env0 store0 1500 (bearer (generateToken auth_env0 1000 ''u1'' ''T1'') ''u2'')
       = (store0, Respond 403 (error_body ''Insufficient permissions''))"
proof -
  let ?t = "generateToken auth_env0 1000 ''u1'' ''T1''"
  have h1: "header_token (bearer ?t ''u2'') = Some ?t" by (simp add: header_token_def bearer_def)
  have h2: "header_token (role_request ?t ''u2'' ''ADMIN'') = Some ?t"
    by (simp add: header_token_def role_request_def)
  have h3: "(1500::nat) < 1000 + jwt_expiresIn auth_env0"
    by (simp add: jwt_expiresIn_def auth_env0_def)
  have h4: "\<exists>u \<in> set (users store0). usr_id u = ''u1'' \<and> usr_tenantId u = ''T1''"
    by (simp add: store0_def alice_def)
  have au: "authenticateToken auth_env0 store0 1500 (bearer ?t ''u2'')
       = Next ((bearer ?t ''u2'')
                 \<lparr>req_user := Some \<lparr>tok_userId = ''u1'', tok_tenantId = ''T1'', tok_role = None\<rparr>\<rparr>)"
    by (simp add: auth_example_defs auth_defs)
  have lg: "login auth_env0 store0 1000 \<lparr>li_email = ''alice@t1.example'', li_password = ''wonderland''\<rparr>
       = Inr \<lparr>res_user = sanitizeUser (user_object alice), res_token = ?t\<rparr>"
    by (simp add: login_def findUnique_def bcrypt_compare_def store0_def alice_def)
  have al: "usr_role alice = ''ADMIN''" "alice \<in> set (users store0)"
    by (simp_all add: store0_def alice_def)
  from C10_issued_token_has_no_role [OF h1 h2, of store0 1500] h3 h4
  have "route_list_users auth_env0 store0 1500 (bearer ?t ''u2'')
          = Respond 403 (error_body ''Insufficient permissions'')
        \<and> route_patch_role auth_env0 store0 1500 (role_request ?t ''u2'' ''ADMIN'')
          = (store0, Respond 403 (error_body ''Insufficient permissions''))
        \<and> route_delete_user auth_env0 store0 1500 (bearer ?t ''u2'')
          = (store0, Respond 403 (error_body ''Insufficient permissions''))"
    by blast
  with al lg h1 h2 h3 au show ?thesis by simp
qed

end
